theory Spec2Isabelle
  imports Complex_Main "HOL-Library.AList" "HOL-Library.Word"
begin

section \<open>Scalar resources of the host manager\<close>

text \<open>
  \<^verbatim>\<open>scalar.Resources\<close> (package \<^verbatim>\<open>pkg/hostmgr/scalar\<close>) is a struct of four
  \<^verbatim>\<open>float64\<close> fields. Its methods are used by \<^verbatim>\<open>summary.go\<close> but their source is
  not part of the repository snapshot (only \<^verbatim>\<open>resources_test.go\<close> is), so they are
  written down from the specification.

  The type variable \<open>'f\<close> stands for \<^verbatim>\<open>float64\<close>. Of that type only the operations
  \<open>+\<close>, \<open>-\<close>, \<open>\<le>\<close> and the constant \<open>0\<close> are used, through the type classes \<open>plus\<close>,
  \<open>minus\<close>, \<open>ord\<close> and \<open>zero\<close>, which carry no laws: nothing is assumed of the
  arithmetic (no associativity, no exactness), so every statement proved for all \<open>'f\<close>
  holds of the rounding operations of \<^verbatim>\<open>float64\<close> as well. Concrete inputs are given
  at the type \<open>real\<close>, with small whole numbers on which \<^verbatim>\<open>float64\<close> arithmetic is exact.
\<close>

record 'f Resources =
  CPU :: 'f
  Mem :: 'f
  Disk :: 'f
  GPU :: 'f

text \<open>The Go zero value \<^verbatim>\<open>scalar.Resources{}\<close>.\<close>

definition Resources_zero :: "'f::{plus,minus,zero,ord} Resources" where
  "Resources_zero = \<lparr>CPU = 0, Mem = 0, Disk = 0, GPU = 0\<rparr>"

text \<open>Modelled from the spec: \<^verbatim>\<open>Resources.Add\<close> (source missing), the total
  componentwise sum.\<close>

definition Add :: "'f::{plus,minus,zero,ord} Resources \<Rightarrow> 'f Resources \<Rightarrow> 'f Resources" where
  "Add r other =
     \<lparr>CPU = CPU r + CPU other, Mem = Mem r + Mem other,
      Disk = Disk r + Disk other, GPU = GPU r + GPU other\<rparr>"

text \<open>Modelled from the spec: \<^verbatim>\<open>Resources.Contains\<close> (source missing):
  \<^verbatim>\<open>Contains(x)\<close> holds iff every component is at least the component of \<^verbatim>\<open>x\<close>.\<close>

definition Contains :: "'f::{plus,minus,zero,ord} Resources \<Rightarrow> 'f Resources \<Rightarrow> bool" where
  "Contains r other \<longleftrightarrow>
     CPU r \<ge> CPU other \<and> Mem r \<ge> Mem other \<and> Disk r \<ge> Disk other \<and> GPU r \<ge> GPU other"

text \<open>Modelled from the spec: \<^verbatim>\<open>Resources.TrySubtract\<close> (source missing): it succeeds
  iff every component of the left operand dominates the right one. On failure the
  returned resources are the zero value, as the comment in \<^verbatim>\<open>getAvailable\<close> relies on
  (``continue with available set to scalar.Resources{}'').\<close>

definition TrySubtract ::
  "'f::{plus,minus,zero,ord} Resources \<Rightarrow> 'f Resources \<Rightarrow> 'f Resources \<times> bool" where
  "TrySubtract r other =
     (if Contains r other
      then (\<lparr>CPU = CPU r - CPU other, Mem = Mem r - Mem other,
             Disk = Disk r - Disk other, GPU = GPU r - GPU other\<rparr>, True)
      else (Resources_zero, False))"

text \<open>The wire messages converted into \<^verbatim>\<open>scalar.Resources\<close>: \<^verbatim>\<open>peloton.Resources\<close>
  (host capacity) and \<^verbatim>\<open>pod.ResourceSpec\<close> (the minimum of a filter). Only the four
  scalar fields are kept.\<close>

record 'f PelotonResources =
  Cpu :: 'f
  MemMb :: 'f
  DiskMb :: 'f
  Gpu :: 'f

record 'f ResourceSpec =
  CpuLimit :: 'f
  MemLimitMb :: 'f
  DiskLimitMb :: 'f
  GpuLimit :: 'f

text \<open>Modelled from the spec: \<^verbatim>\<open>scalar.FromPelotonResources\<close> (source missing), a
  field-by-field copy; a nil message reads as zero through the nil-safe getters.\<close>

definition FromPelotonResources ::
  "'f::{plus,minus,zero,ord} PelotonResources option \<Rightarrow> 'f Resources" where
  "FromPelotonResources r =
     (case r of
        None \<Rightarrow> Resources_zero
      | Some p \<Rightarrow> \<lparr>CPU = Cpu p, Mem = MemMb p, Disk = DiskMb p, GPU = Gpu p\<rparr>)"

text \<open>Modelled from the spec: \<^verbatim>\<open>scalar.FromResourceSpec\<close> (source missing), a
  field-by-field copy.\<close>

definition FromResourceSpec :: "'f::{plus,minus,zero,ord} ResourceSpec \<Rightarrow> 'f Resources" where
  "FromResourceSpec rs =
     \<lparr>CPU = CpuLimit rs, Mem = MemLimitMb rs, Disk = DiskLimitMb rs, GPU = GpuLimit rs\<rparr>"


section \<open>Host summary (\<^verbatim>\<open>pkg/hostmgr/p2k/hostcache/summary.go\<close>)\<close>

text \<open>
  \<^verbatim>\<open>type HostStatus int\<close>: a status is any integer. The four declared constants are
  numbered from 1 (\<^verbatim>\<open>iota + 1\<close>); a caller of \<^verbatim>\<open>CasStatus\<close> may pass any other integer as
  well. Statuses are only compared, never computed with, so the width of the Go \<^verbatim>\<open>int\<close>
  plays no part.
\<close>

type_synonym HostStatus = int

definition ReadyHost :: HostStatus where
  "ReadyHost = 1"

definition PlacingHost :: HostStatus where
  "PlacingHost = 2"

definition ReservedHost :: HostStatus where
  "ReservedHost = 3"

definition HeldHost :: HostStatus where
  "HeldHost = 4"

definition emptyLeaseID :: string where
  "emptyLeaseID = ''''"

text \<open>
  The struct \<^verbatim>\<open>hostSummary\<close>. The mutex is left out: every exported method holds it for
  its whole body, so each method is one atomic state transformer. Go maps are
  association lists (looked up with \<open>map_of\<close>, written with \<open>AList.update\<close>,
  \<open>AList.delete\<close>); a \<^verbatim>\<open>range\<close> loop over a map visits the entries in an order Go
  leaves open, and the order of the list stands for the order of that visit. The
  expiration times of \<^verbatim>\<open>heldPodIDs\<close> are natural numbers.
\<close>

record 'f hostSummary =
  hostname :: string
  capacity :: "'f Resources"
  allocated :: "'f Resources"
  labels :: "(string \<times> string) list"
  podToResMap :: "(string \<times> 'f Resources) list"
  heldPodIDs :: "(string \<times> nat) list"
  status :: HostStatus
  leaseID :: string
  version :: string

text \<open>Errors. \<^verbatim>\<open>fmt.Errorf\<close> and \<^verbatim>\<open>errors.New\<close> values are \<open>plain_error\<close>; every error
  an exported method returns is built by \<^verbatim>\<open>yarpcerrors.InvalidArgumentErrorf\<close>, with one
  \<open>message\<close> per format string.\<close>

datatype plain_error =
    InvalidOldStatus HostStatus
  | PodAlreadyExists string
  | HostInsufficientResources

datatype message =
    HostStatusNotPlacing
  | HostLeaseIDMismatch
  | FailedToUnlockHost plain_error
  | PodValidationFailed plain_error
  | FailedToSetCasStatus plain_error
  | InvalidStatus HostStatus

datatype yarpc_error = InvalidArgument message

text \<open>The host filter of the placement engine, with the nil-safe getters of the
  generated code. A nil pointer is \<open>None\<close>.\<close>

record FilterHint_Host =
  Hostname :: string

record FilterHint =
  HostHint :: "FilterHint_Host list"

record 'f ResourceConstraint =
  Minimum :: "'f ResourceSpec option"

record 'f HostFilter =
  ResourceConstraint :: "'f ResourceConstraint option"
  Hint :: "FilterHint option"

definition GetResourceConstraint :: "'f HostFilter option \<Rightarrow> 'f ResourceConstraint option" where
  "GetResourceConstraint c = (case c of None \<Rightarrow> None | Some f \<Rightarrow> ResourceConstraint f)"

definition GetMinimum :: "'f ResourceConstraint option \<Rightarrow> 'f ResourceSpec option" where
  "GetMinimum rc = (case rc of None \<Rightarrow> None | Some x \<Rightarrow> Minimum x)"

definition GetHint :: "'f HostFilter option \<Rightarrow> FilterHint option" where
  "GetHint c = (case c of None \<Rightarrow> None | Some f \<Rightarrow> Hint f)"

definition GetHostHint :: "FilterHint option \<Rightarrow> FilterHint_Host list" where
  "GetHostHint h = (case h of None \<Rightarrow> [] | Some x \<Rightarrow> HostHint x)"

definition GetHostname :: "FilterHint_Host \<Rightarrow> string" where
  "GetHostname h = Hostname h"

datatype HostFilterResult =
    HOST_FILTER_MATCH
  | HOST_FILTER_INSUFFICIENT_RESOURCES
  | HOST_FILTER_MISMATCH_CONSTRAINTS
  | HOST_FILTER_MISMATCH_STATUS

record Match =
  Result :: HostFilterResult
  HostName :: string

definition newHostSummary ::
  "string \<Rightarrow> 'f::{plus,minus,zero,ord} PelotonResources option \<Rightarrow> string \<Rightarrow> 'f hostSummary" where
  "newHostSummary hostname_arg r version_arg =
     (let rs = FromPelotonResources r in
      \<lparr>hostname = hostname_arg,
       capacity = rs,
       allocated = Resources_zero,
       labels = [],
       podToResMap = [],
       heldPodIDs = [],
       status = ReadyHost,
       leaseID = '''',
       version = version_arg\<rparr>)"

definition getAvailable :: "'f::{plus,minus,zero,ord} hostSummary \<Rightarrow> 'f Resources" where
  "getAvailable a = (let (available, ok) = TrySubtract (capacity a) (allocated a) in available)"

definition getResetStatus :: "'f hostSummary \<Rightarrow> HostStatus" where
  "getResetStatus a = (if length (heldPodIDs a) \<noteq> 0 then HeldHost else ReadyHost)"

text \<open>
  \<^verbatim>\<open>casStatus\<close>. The call \<^verbatim>\<open>uuid.New()\<close> reads from the random source; the string it
  would return at this call is the argument \<open>uuid_New\<close>, passed down from every exported
  method that reaches \<^verbatim>\<open>casStatus\<close>. The \<^verbatim>\<open>switch\<close> has no default: a new status
  that is none of the four constants is stored and the lease ID is left as it is.
\<close>

definition casStatus ::
  "HostStatus \<Rightarrow> HostStatus \<Rightarrow> string \<Rightarrow> 'f hostSummary \<Rightarrow> plain_error option \<times> 'f hostSummary" where
  "casStatus oldStatus newStatus uuid_New a =
     (if status a \<noteq> oldStatus then (Some (InvalidOldStatus oldStatus), a)
      else
        let a1 = a\<lparr>status := newStatus\<rparr> in
        (None,
         if status a1 = ReadyHost then a1\<lparr>leaseID := emptyLeaseID\<rparr>
         else if status a1 = PlacingHost then a1\<lparr>leaseID := uuid_New\<rparr>
         else if status a1 = ReservedHost then a1\<lparr>leaseID := uuid_New\<rparr>
         else if status a1 = HeldHost then a1\<lparr>leaseID := emptyLeaseID\<rparr>
         else a1))"

definition matchHostFilter ::
  "'f::{plus,minus,zero,ord} HostFilter option \<Rightarrow> 'f hostSummary \<Rightarrow> HostFilterResult" where
  "matchHostFilter c a =
     (let min = GetMinimum (GetResourceConstraint c);
          available = getAvailable a
      in case min of
           Some m \<Rightarrow>
             (let minRes = FromResourceSpec m in
              if \<not> Contains available minRes then HOST_FILTER_INSUFFICIENT_RESOURCES
              else HOST_FILTER_MATCH)
         | None \<Rightarrow> HOST_FILTER_MATCH)"

text \<open>The loop over the host hints with its \<^verbatim>\<open>break\<close> computes whether some hint names
  this host.\<close>

definition hintFound :: "'f HostFilter option \<Rightarrow> 'f hostSummary \<Rightarrow> bool" where
  "hintFound filter_arg a =
     list_ex (\<lambda>hostHint. GetHostname hostHint = hostname a) (GetHostHint (GetHint filter_arg))"

definition TryMatch ::
  "'f::{plus,minus,zero,ord} HostFilter option \<Rightarrow> string \<Rightarrow> 'f hostSummary
     \<Rightarrow> Match \<times> 'f hostSummary" where
  "TryMatch filter_arg uuid_New a =
     (if status a \<noteq> ReadyHost \<and> status a \<noteq> HeldHost
      then (\<lparr>Result = HOST_FILTER_MISMATCH_STATUS, HostName = ''''\<rparr>, a)
      else if status a = HeldHost \<and> \<not> hintFound filter_arg a
      then (\<lparr>Result = HOST_FILTER_MISMATCH_STATUS, HostName = ''''\<rparr>, a)
      else
        let result = matchHostFilter filter_arg a in
        if result \<noteq> HOST_FILTER_MATCH then (\<lparr>Result = result, HostName = ''''\<rparr>, a)
        else
          case casStatus (status a) PlacingHost uuid_New a of
            (Some err, a') \<Rightarrow> (\<lparr>Result = HOST_FILTER_MISMATCH_STATUS, HostName = ''''\<rparr>, a')
          | (None, a') \<Rightarrow> (\<lparr>Result = HOST_FILTER_MATCH, HostName = hostname a'\<rparr>, a'))"

definition calculateAllocated :: "'f::{plus,minus,zero,ord} hostSummary \<Rightarrow> 'f hostSummary" where
  "calculateAllocated a =
     a\<lparr>allocated := foldl (\<lambda>allocated (podID, r). Add allocated r) Resources_zero (podToResMap a)\<rparr>"

definition ReleasePodResources ::
  "string \<Rightarrow> 'f::{plus,minus,zero,ord} hostSummary \<Rightarrow> 'f hostSummary" where
  "ReleasePodResources podID a =
     (if map_of (podToResMap a) podID = None then a
      else calculateAllocated (a\<lparr>podToResMap := AList.delete podID (podToResMap a)\<rparr>))"

text \<open>The loop of \<^verbatim>\<open>validateNewPods\<close>: it returns at the first pod that is already on the
  host, and otherwise accumulates \<open>needed\<close>.\<close>

fun validateNewPods_loop ::
  "'f::{plus,minus,zero,ord} hostSummary \<Rightarrow> (string \<times> 'f Resources) list \<Rightarrow> 'f Resources
     \<Rightarrow> plain_error + 'f Resources" where
  "validateNewPods_loop a [] needed = Inr needed"
| "validateNewPods_loop a ((podID, res) # rest) needed =
     (if map_of (podToResMap a) podID \<noteq> None then Inl (PodAlreadyExists podID)
      else validateNewPods_loop a rest (Add needed res))"

definition validateNewPods ::
  "(string \<times> 'f::{plus,minus,zero,ord} Resources) list \<Rightarrow> 'f hostSummary \<Rightarrow> plain_error option" where
  "validateNewPods newPodToResMap a =
     (let available = getAvailable a in
      case validateNewPods_loop a newPodToResMap Resources_zero of
        Inl err \<Rightarrow> Some err
      | Inr needed \<Rightarrow>
          if \<not> Contains available needed then Some HostInsufficientResources else None)"

definition updatePodToResMap ::
  "(string \<times> 'f::{plus,minus,zero,ord} Resources) list \<Rightarrow> 'f hostSummary \<Rightarrow> 'f hostSummary" where
  "updatePodToResMap newPodToResMap a =
     calculateAllocated
       (a\<lparr>podToResMap :=
            foldl (\<lambda>m (podID, res). AList.update podID res m) (podToResMap a) newPodToResMap\<rparr>)"

definition CompleteLease ::
  "string \<Rightarrow> (string \<times> 'f::{plus,minus,zero,ord} Resources) list \<Rightarrow> string \<Rightarrow> 'f hostSummary
     \<Rightarrow> yarpc_error option \<times> 'f hostSummary" where
  "CompleteLease leaseID_arg newPodToResMap uuid_New a =
     (if status a \<noteq> PlacingHost then (Some (InvalidArgument HostStatusNotPlacing), a)
      else if leaseID a \<noteq> leaseID_arg then (Some (InvalidArgument HostLeaseIDMismatch), a)
      else
        let newState = getResetStatus a in
        case casStatus PlacingHost newState uuid_New a of
          (Some err, a1) \<Rightarrow> (Some (InvalidArgument (FailedToUnlockHost err)), a1)
        | (None, a1) \<Rightarrow>
            (case validateNewPods newPodToResMap a1 of
               Some err \<Rightarrow> (Some (InvalidArgument (PodValidationFailed err)), a1)
             | None \<Rightarrow> (None, updatePodToResMap newPodToResMap a1)))"

definition CasStatus ::
  "HostStatus \<Rightarrow> HostStatus \<Rightarrow> string \<Rightarrow> 'f hostSummary \<Rightarrow> yarpc_error option \<times> 'f hostSummary" where
  "CasStatus old new uuid_New a =
     (case casStatus old new uuid_New a of
        (Some err, a') \<Rightarrow> (Some (InvalidArgument (FailedToSetCasStatus err)), a')
      | (None, a') \<Rightarrow> (None, a'))"

definition TerminateLease :: "string \<Rightarrow> 'f hostSummary \<Rightarrow> yarpc_error option \<times> 'f hostSummary" where
  "TerminateLease uuid_New a =
     (if status a \<noteq> PlacingHost then (Some (InvalidArgument (InvalidStatus (status a))), a)
      else
        let newStatus = getResetStatus a in
        case casStatus PlacingHost newStatus uuid_New a of
          (Some err, a') \<Rightarrow> (Some (InvalidArgument (FailedToSetCasStatus err)), a')
        | (None, a') \<Rightarrow> (None, a'))"

definition SetCapacity :: "'f Resources \<Rightarrow> 'f hostSummary \<Rightarrow> 'f hostSummary" where
  "SetCapacity r a = a\<lparr>capacity := r\<rparr>"

definition SetVersion :: "string \<Rightarrow> 'f hostSummary \<Rightarrow> 'f hostSummary" where
  "SetVersion v a = a\<lparr>version := v\<rparr>"


subsection \<open>Runs of the exported operations\<close>

text \<open>
  The state-changing methods of the \<^verbatim>\<open>HostSummary\<close> interface as one datatype, to speak
  about the summaries reachable from \<^verbatim>\<open>newHostSummary\<close>. Each operation comes with the
  string \<^verbatim>\<open>uuid.New()\<close> would return if the operation reaches \<^verbatim>\<open>casStatus\<close>.
\<close>

datatype 'f hostOp =
    OpTryMatch "'f HostFilter option"
  | OpCompleteLease string "(string \<times> 'f Resources) list"
  | OpTerminateLease
  | OpCasStatus HostStatus HostStatus
  | OpReleasePodResources string
  | OpSetCapacity "'f Resources"
  | OpSetVersion string

fun applyOp :: "'f::{plus,minus,zero,ord} hostOp \<Rightarrow> string \<Rightarrow> 'f hostSummary \<Rightarrow> 'f hostSummary" where
  "applyOp (OpTryMatch f) uuid_New a = snd (TryMatch f uuid_New a)"
| "applyOp (OpCompleteLease l new) uuid_New a = snd (CompleteLease l new uuid_New a)"
| "applyOp OpTerminateLease uuid_New a = snd (TerminateLease uuid_New a)"
| "applyOp (OpCasStatus old new) uuid_New a = snd (CasStatus old new uuid_New a)"
| "applyOp (OpReleasePodResources podID) uuid_New a = ReleasePodResources podID a"
| "applyOp (OpSetCapacity r) uuid_New a = SetCapacity r a"
| "applyOp (OpSetVersion v) uuid_New a = SetVersion v a"

fun runOps ::
  "('f::{plus,minus,zero,ord} hostOp \<times> string) list \<Rightarrow> 'f hostSummary \<Rightarrow> 'f hostSummary" where
  "runOps [] a = a"
| "runOps ((op, uuid_New) # rest) a = runOps rest (applyOp op uuid_New a)"

text \<open>The four declared statuses, and the operations that name no other status: every
  operation but a \<^verbatim>\<open>CasStatus\<close> whose new status is an undeclared integer.\<close>

definition declaredStatus :: "HostStatus \<Rightarrow> bool" where
  "declaredStatus s \<longleftrightarrow> s = ReadyHost \<or> s = PlacingHost \<or> s = ReservedHost \<or> s = HeldHost"

fun declaredOp :: "'f hostOp \<Rightarrow> bool" where
  "declaredOp (OpCasStatus old new) = declaredStatus new"
| "declaredOp (OpTryMatch f) = True"
| "declaredOp (OpCompleteLease l new) = True"
| "declaredOp OpTerminateLease = True"
| "declaredOp (OpReleasePodResources podID) = True"
| "declaredOp (OpSetCapacity r) = True"
| "declaredOp (OpSetVersion v) = True"

text \<open>The invariant of the lease: the lease ID is set exactly in the two locked statuses.\<close>

definition leaseInvariant :: "'f hostSummary \<Rightarrow> bool" where
  "leaseInvariant a \<longleftrightarrow>
     (leaseID a \<noteq> '''' \<longleftrightarrow> status a = PlacingHost \<or> status a = ReservedHost)"

text \<open>The lease ID that the \<^verbatim>\<open>switch\<close> of \<^verbatim>\<open>casStatus\<close> leaves behind for a new status, a
  drawn UUID and the lease ID held before.\<close>

definition leaseAfter :: "HostStatus \<Rightarrow> string \<Rightarrow> string \<Rightarrow> string" where
  "leaseAfter new u l =
     (if new = PlacingHost \<or> new = ReservedHost then u
      else if new = ReadyHost \<or> new = HeldHost then ''''
      else l)"

text \<open>What one operation may do to status and lease ID: leave both alone, or end in a
  status with the lease ID that \<^verbatim>\<open>casStatus\<close> gives it.\<close>

definition entered :: "string \<Rightarrow> 'f hostSummary \<Rightarrow> 'f hostSummary \<Rightarrow> bool" where
  "entered u a a' \<longleftrightarrow>
     (status a' = status a \<and> leaseID a' = leaseID a) \<or>
     leaseID a' = leaseAfter (status a') u (leaseID a)"

section \<open>Goal-state rules for jobs (\<^verbatim>\<open>jobmgr/goalstate\<close>, job entity)\<close>

text \<open>The generated enumeration \<^verbatim>\<open>job.JobState\<close> is not part of the snapshot; the states
  are those the rules and the specification name.\<close>

datatype JobState =
    JobState_UNKNOWN
  | JobState_INITIALIZED
  | JobState_PENDING
  | JobState_RUNNING
  | JobState_SUCCEEDED
  | JobState_FAILED
  | JobState_KILLED
  | JobState_KILLING
  | JobState_UNINITIALIZED

datatype JobAction =
    NoJobAction
  | CreateTasksAction
  | KillAction
  | UntrackAction
  | JobStateInvalidAction
  | RuntimeUpdateAction
  | EvaluateSLAAction
  | ClearAction
  | EnqeueAction
  | RecoverAction
  | DeleteFromActiveJobsAction
  | StartTasksAction

text \<open>\<^verbatim>\<open>_isoVersionsJobRules\<close>: goal state, then current state, then action. The Go map
  literal is an association list read with \<open>map_of\<close>.\<close>

definition isoVersionsJobRules :: "(JobState \<times> (JobState \<times> JobAction) list) list" where
  "isoVersionsJobRules =
     [(JobState_RUNNING,
         [(JobState_INITIALIZED, CreateTasksAction),
          (JobState_SUCCEEDED, JobStateInvalidAction),
          (JobState_FAILED, JobStateInvalidAction),
          (JobState_KILLING, JobStateInvalidAction),
          (JobState_UNINITIALIZED, RecoverAction)]),
      (JobState_SUCCEEDED,
         [(JobState_INITIALIZED, CreateTasksAction),
          (JobState_SUCCEEDED, UntrackAction),
          (JobState_FAILED, UntrackAction),
          (JobState_KILLED, UntrackAction),
          (JobState_KILLING, JobStateInvalidAction),
          (JobState_UNINITIALIZED, RecoverAction)]),
      (JobState_KILLED,
         [(JobState_SUCCEEDED, UntrackAction),
          (JobState_FAILED, UntrackAction),
          (JobState_KILLED, UntrackAction),
          (JobState_UNINITIALIZED, UntrackAction),
          (JobState_INITIALIZED, KillAction),
          (JobState_PENDING, KillAction),
          (JobState_RUNNING, KillAction)]),
      (JobState_FAILED,
         [(JobState_INITIALIZED, JobStateInvalidAction),
          (JobState_PENDING, JobStateInvalidAction),
          (JobState_RUNNING, JobStateInvalidAction),
          (JobState_SUCCEEDED, JobStateInvalidAction),
          (JobState_FAILED, JobStateInvalidAction),
          (JobState_KILLED, JobStateInvalidAction),
          (JobState_KILLING, JobStateInvalidAction),
          (JobState_UNINITIALIZED, JobStateInvalidAction)])]"

text \<open>\<^verbatim>\<open>cached.JobStateVector\<close>: a state and its version (\<^verbatim>\<open>uint64\<close>).\<close>

record JobStateVector =
  State :: JobState
  StateVersion :: "64 word"

text \<open>The two-level lookup at the end of \<^verbatim>\<open>suggestJobAction\<close>:
  \<^verbatim>\<open>if tr, ok := _isoVersionsJobRules[goal]; ok { if a, ok := tr[state]; ok { ... } }\<close>.\<close>

definition jobRule :: "JobState \<Rightarrow> JobState \<Rightarrow> JobAction option" where
  "jobRule goal current =
     (case map_of isoVersionsJobRules goal of
        None \<Rightarrow> None
      | Some tr \<Rightarrow> map_of tr current)"

definition suggestJobAction :: "JobStateVector \<Rightarrow> JobStateVector \<Rightarrow> JobAction" where
  "suggestJobAction state goalstate =
     (let fromRules = (case jobRule (State goalstate) (State state) of
                         Some a \<Rightarrow> a
                       | None \<Rightarrow> NoJobAction)
      in if StateVersion state < StateVersion goalstate
         then (if State goalstate = JobState_RUNNING
               then (if State state = JobState_INITIALIZED then CreateTasksAction
                     else StartTasksAction)
               else fromRules)
         else fromRules)"


section \<open>Goal-state rules for tasks (\<^verbatim>\<open>jobmgr/goalstate\<close>, engine)\<close>

text \<open>The generated enumeration \<^verbatim>\<open>task.TaskState\<close> and the package \<^verbatim>\<open>tracked\<close> are not
  part of the snapshot; states and actions are those the rules and the specification
  name.\<close>

datatype TaskState =
    TaskState_UNKNOWN
  | TaskState_INITIALIZED
  | TaskState_PENDING
  | TaskState_LAUNCHING
  | TaskState_LAUNCHED
  | TaskState_RUNNING
  | TaskState_SUCCEEDED
  | TaskState_FAILED
  | TaskState_KILLING
  | TaskState_KILLED

datatype TaskAction =
    tracked_NoAction
  | tracked_UntrackAction
  | tracked_StartAction
  | tracked_StopAction
  | tracked_UseGoalVersionAction

definition isoVersionsTaskRules :: "(TaskState \<times> (TaskState \<times> TaskAction) list) list" where
  "isoVersionsTaskRules =
     [(TaskState_RUNNING,
         [(TaskState_INITIALIZED, tracked_StartAction)]),
      (TaskState_SUCCEEDED,
         [(TaskState_INITIALIZED, tracked_StartAction),
          (TaskState_SUCCEEDED, tracked_UntrackAction),
          (TaskState_KILLED, tracked_UntrackAction)]),
      (TaskState_KILLED,
         [(TaskState_INITIALIZED, tracked_StopAction),
          (TaskState_LAUNCHING, tracked_StopAction),
          (TaskState_LAUNCHED, tracked_StopAction),
          (TaskState_RUNNING, tracked_StopAction),
          (TaskState_KILLED, tracked_UntrackAction),
          (TaskState_SUCCEEDED, tracked_UntrackAction),
          (TaskState_FAILED, tracked_UntrackAction)]),
      (TaskState_FAILED,
         [(TaskState_FAILED, tracked_UntrackAction),
          (TaskState_SUCCEEDED, tracked_UntrackAction),
          (TaskState_KILLED, tracked_UntrackAction)])]"

text \<open>\<^verbatim>\<open>tracked.State\<close> (a task state with its configuration version) and the two states
  a tracked task reports.\<close>

record tracked_State =
  Task_State :: TaskState
  ConfigVersion :: "64 word"

record tracked_Task =
  CurrentState :: tracked_State
  GoalState :: tracked_State

definition taskRule :: "TaskState \<Rightarrow> TaskState \<Rightarrow> TaskAction option" where
  "taskRule goal current =
     (case map_of isoVersionsTaskRules goal of
        None \<Rightarrow> None
      | Some tr \<Rightarrow> map_of tr current)"

text \<open>
  \<^verbatim>\<open>suggestTaskAction\<close>. The constant \<^verbatim>\<open>tracked.UnknownVersion\<close> and the predicate
  \<^verbatim>\<open>util.IsPelotonStateTerminal\<close> are declared outside the snapshot; they are the
  parameters \<open>UnknownVersion\<close> and \<open>IsPelotonStateTerminal\<close>.
\<close>

definition suggestTaskAction ::
  "64 word \<Rightarrow> (TaskState \<Rightarrow> bool) \<Rightarrow> tracked_Task \<Rightarrow> TaskAction" where
  "suggestTaskAction UnknownVersion IsPelotonStateTerminal t =
     (let currentState = CurrentState t;
          goalState = GoalState t;
          fromRules = (case taskRule (Task_State goalState) (Task_State currentState) of
                         Some a \<Rightarrow> a
                       | None \<Rightarrow> tracked_NoAction)
      in if ConfigVersion currentState \<noteq> ConfigVersion goalState
         then (if ConfigVersion currentState = UnknownVersion \<or>
                  ConfigVersion goalState = UnknownVersion
               then fromRules
               else if IsPelotonStateTerminal (Task_State currentState)
               then tracked_UseGoalVersionAction
               else tracked_StopAction)
         else fromRules)"



section \<open>Resource pool (\<^verbatim>\<open>resmgr/respool\<close>)\<close>

text \<open>
  Of the resource pool only the test suite \<^verbatim>\<open>respool_test.go\<close> is part of the
  snapshot. The definitions of this section follow the specification; the resources of a
  pool are the four-component \<open>Resources\<close> of the specification's data model.
\<close>

record 'f resmgr_Task =
  Id :: string
  Priority :: nat
  Resource :: "'f Resources"

type_synonym 'f Gang = "'f resmgr_Task list"

datatype ResourceKind = KindCPU | KindMEMORY | KindDISK | KindGPU

datatype respool_error =
    GangHasNoElements
  | LimitNotValid int
  | InsufficientResources

text \<open>Modelled from the spec: the state of a leaf pool (struct \<^verbatim>\<open>resPool\<close>, source
  missing): the pending queue of gangs in order of arrival, the entitlement and the
  allocation. The ancestors of the leaf are not part of its state. The specification
  makes admission depend on them (``siblings' reservations are not violated at any
  ancestor'') without giving that condition a formula; what the ancestors answer for a
  gang is the field \<open>siblingsReservationsKept\<close>.\<close>

record 'f ResPool =
  pendingQueue :: "'f Gang list"
  entitlement :: "'f Resources"
  allocation :: "'f Resources"
  siblingsReservationsKept :: "'f Gang \<Rightarrow> bool"

text \<open>Modelled from the spec: the key of a gang in the priority queue (source missing).
  The specification gives the priority to tasks; a gang is keyed by its first task.\<close>

definition gangPriority :: "'f Gang \<Rightarrow> nat" where
  "gangPriority g = (case g of [] \<Rightarrow> 0 | t # _ \<Rightarrow> Priority t)"

text \<open>Modelled from the spec: the demand \<^verbatim>\<open>G.resources\<close> of a gang (source missing), the
  sum over its tasks.\<close>

definition gangResources :: "'f::{plus,minus,zero,ord} Gang \<Rightarrow> 'f Resources" where
  "gangResources g = foldl (\<lambda>acc t. Add acc (Resource t)) Resources_zero g"

text \<open>Modelled from the spec: the head of line of the priority queue (source missing):
  higher priority first, and order of arrival within one priority.\<close>

definition headOfLine :: "'f Gang list \<Rightarrow> 'f Gang option" where
  "headOfLine q = find (\<lambda>g. gangPriority g = fold max (map gangPriority q) 0) q"

text \<open>Modelled from the spec: whether a gang fits the entitlement (source missing):
  \<^verbatim>\<open>allocation + G.resources \<le> entitlement\<close>.\<close>

definition fitsEntitlement :: "'f::{plus,minus,zero,ord} ResPool \<Rightarrow> 'f Gang \<Rightarrow> bool" where
  "fitsEntitlement p g \<longleftrightarrow> Contains (entitlement p) (Add (allocation p) (gangResources g))"

text \<open>Modelled from the spec: admission of a gang (source missing): a pool is
  dequeue-eligible for a gang iff the gang fits the entitlement and the siblings'
  reservations are not violated at any ancestor.\<close>

definition canBeAdmitted :: "'f::{plus,minus,zero,ord} ResPool \<Rightarrow> 'f Gang \<Rightarrow> bool" where
  "canBeAdmitted p g \<longleftrightarrow> fitsEntitlement p g \<and> siblingsReservationsKept p g"

text \<open>Modelled from the spec: \<^verbatim>\<open>EnqueueGang\<close> (source missing): it fails on an empty
  gang and appends any other gang to the pending queue.\<close>

definition EnqueueGang :: "'f Gang \<Rightarrow> 'f ResPool \<Rightarrow> respool_error option \<times> 'f ResPool" where
  "EnqueueGang g p =
     (if g = [] then (Some GangHasNoElements, p)
      else (None, p\<lparr>pendingQueue := pendingQueue p @ [g]\<rparr>))"

text \<open>Modelled from the spec: the loop of \<^verbatim>\<open>DequeueGangList\<close> (source missing): at most
  \<open>n\<close> times it takes the head of line if that gang can be admitted; it stops at an empty
  queue and at a head of line that cannot be admitted, which it neither removes nor
  skips. The allocation is the live usage and is accounted outside the dequeue: in the
  specification's scenario of the priority-FIFO dequeue a leaf entitled to the demand of
  one task hands out four such tasks in four calls.\<close>

fun dequeueLoop ::
  "nat \<Rightarrow> 'f::{plus,minus,zero,ord} ResPool \<Rightarrow> 'f Gang list \<Rightarrow> 'f Gang list \<times> 'f ResPool" where
  "dequeueLoop 0 p gangList = (gangList, p)"
| "dequeueLoop (Suc n) p gangList =
     (case headOfLine (pendingQueue p) of
        None \<Rightarrow> (gangList, p)
      | Some g \<Rightarrow>
          if canBeAdmitted p g
          then dequeueLoop n (p\<lparr>pendingQueue := remove1 g (pendingQueue p)\<rparr>) (gangList @ [g])
          else (gangList, p))"

text \<open>Modelled from the spec: \<^verbatim>\<open>DequeueGangList\<close> (source missing): a limit \<open>n \<le> 0\<close> is
  an error; a head of line that is blocked is the insufficient-resources error. Where
  the specification is silent the model returns the gangs taken so far (none for an
  empty queue).\<close>

definition DequeueGangList ::
  "int \<Rightarrow> 'f::{plus,minus,zero,ord} ResPool \<Rightarrow> (respool_error + 'f Gang list) \<times> 'f ResPool" where
  "DequeueGangList limit p =
     (if limit \<le> 0 then (Inl (LimitNotValid limit), p)
      else
        case dequeueLoop (nat limit) p [] of
          (gangList, p') \<Rightarrow>
            if gangList = [] \<and> pendingQueue p' \<noteq> [] then (Inl InsufficientResources, p')
            else (Inr gangList, p'))"

text \<open>Modelled from the spec: \<^verbatim>\<open>SetEntitlementByKind\<close> (source missing; called by the
  test), which replaces one component of the entitlement.\<close>

definition SetEntitlementByKind :: "ResourceKind \<Rightarrow> 'f \<Rightarrow> 'f ResPool \<Rightarrow> 'f ResPool" where
  "SetEntitlementByKind kind v p =
     (case kind of
        KindCPU \<Rightarrow> p\<lparr>entitlement := (entitlement p)\<lparr>CPU := v\<rparr>\<rparr>
      | KindMEMORY \<Rightarrow> p\<lparr>entitlement := (entitlement p)\<lparr>Mem := v\<rparr>\<rparr>
      | KindDISK \<Rightarrow> p\<lparr>entitlement := (entitlement p)\<lparr>Disk := v\<rparr>\<rparr>
      | KindGPU \<Rightarrow> p\<lparr>entitlement := (entitlement p)\<lparr>GPU := v\<rparr>\<rparr>)"


section \<open>Concrete inputs\<close>

text \<open>The host of the lease scenario: capacity \<open>{4, 8192, 100000, 0}\<close>, matched with a
  minimum of \<open>{1, 1024, 0, 0}\<close> under the lease \<open>L\<close>.\<close>

definition ex_capacity :: "real PelotonResources" where
  "ex_capacity = \<lparr>Cpu = 4, MemMb = 8192, DiskMb = 100000, Gpu = 0\<rparr>"

definition ex_filter :: "real HostFilter" where
  "ex_filter =
     \<lparr>ResourceConstraint =
        Some \<lparr>Minimum = Some \<lparr>CpuLimit = 1, MemLimitMb = 1024, DiskLimitMb = 0, GpuLimit = 0\<rparr>\<rparr>,
      Hint = None\<rparr>"

definition ex_ready :: "real hostSummary" where
  "ex_ready = newHostSummary ''host1'' (Some ex_capacity) ''v1''"

definition ex_placing :: "real hostSummary" where
  "ex_placing = snd (TryMatch (Some ex_filter) ''L'' ex_ready)"

text \<open>The same host once a pod of \<open>{3, 4096, 0, 0}\<close> has been launched on it, so that one
  CPU is left of four, and that host matched again under the lease \<open>L2\<close>; a filter and a
  pod that ask for two CPUs, which the capacity has and the available resources have
  not.\<close>

definition ex_pod0 :: "real Resources" where
  "ex_pod0 = \<lparr>CPU = 3, Mem = 4096, Disk = 0, GPU = 0\<rparr>"

definition ex_busy_ready :: "real hostSummary" where
  "ex_busy_ready = snd (CompleteLease ''L'' [(''pod0'', ex_pod0)] ''u'' ex_placing)"

definition ex_busy_placing :: "real hostSummary" where
  "ex_busy_placing = snd (TryMatch (Some ex_filter) ''L2'' ex_busy_ready)"

definition ex_two_cpus :: "real Resources" where
  "ex_two_cpus = \<lparr>CPU = 2, Mem = 1024, Disk = 0, GPU = 0\<rparr>"

definition ex_two_cpu_filter :: "real HostFilter" where
  "ex_two_cpu_filter =
     \<lparr>ResourceConstraint =
        Some \<lparr>Minimum = Some \<lparr>CpuLimit = 2, MemLimitMb = 1024, DiskLimitMb = 0, GpuLimit = 0\<rparr>\<rparr>,
      Hint = None\<rparr>"

text \<open>A host whose allocation exceeds its capacity, a held host, and two runs of exported
  operations: one that names declared statuses only, and one whose \<^verbatim>\<open>CasStatus\<close> passes
  the undeclared status 9.\<close>

definition ex_overcommitted :: "real hostSummary" where
  "ex_overcommitted =
     \<lparr>hostname = ''host2'', capacity = \<lparr>CPU = 1, Mem = 1, Disk = 1, GPU = 0\<rparr>,
      allocated = \<lparr>CPU = 10, Mem = 10, Disk = 10, GPU = 0\<rparr>, labels = [],
      podToResMap = [(''pod0'', \<lparr>CPU = 10, Mem = 10, Disk = 10, GPU = 0\<rparr>)], heldPodIDs = [],
      status = ReadyHost, leaseID = '''', version = ''v1''\<rparr>"

definition ex_held :: "real hostSummary" where
  "ex_held = ex_ready\<lparr>heldPodIDs := [(''pod9'', 180)], status := HeldHost\<rparr>"

definition ex_ops :: "(real hostOp \<times> string) list" where
  "ex_ops =
     [(OpTryMatch (Some ex_filter), ''L''),
      (OpCompleteLease ''L'' [(''pod1'', \<lparr>CPU = 1, Mem = 1024, Disk = 0, GPU = 0\<rparr>)], ''u2''),
      (OpCasStatus ReadyHost ReservedHost, ''R''),
      (OpReleasePodResources ''pod1'', ''u4'')]"

definition ex_ops_undeclared :: "(real hostOp \<times> string) list" where
  "ex_ops_undeclared =
     [(OpTryMatch (Some ex_filter), ''L''),
      (OpCasStatus PlacingHost 9, ''u2'')]"

text \<open>Modelled from the spec: a value for the parameter \<open>IsPelotonStateTerminal\<close> (the
  source of \<^verbatim>\<open>util.IsPelotonStateTerminal\<close> is missing): the task states \<open>KILLED\<close>,
  \<open>SUCCEEDED\<close> and \<open>FAILED\<close>, which the task rules of the specification send to
  untrack.\<close>

definition terminalTaskState :: "TaskState \<Rightarrow> bool" where
  "terminalTaskState s \<longleftrightarrow> s = TaskState_SUCCEEDED \<or> s = TaskState_FAILED \<or> s = TaskState_KILLED"

text \<open>A value for the parameter \<open>UnknownVersion\<close>, and four tracked tasks: one whose
  current version is the unknown one, two that lag behind the goal version (running, and
  finished), and one at the goal version.\<close>

definition ex_UnknownVersion :: "64 word" where
  "ex_UnknownVersion = - 1"

definition ex_task_unknown :: tracked_Task where
  "ex_task_unknown =
     \<lparr>CurrentState = \<lparr>Task_State = TaskState_INITIALIZED, ConfigVersion = - 1\<rparr>,
      GoalState = \<lparr>Task_State = TaskState_RUNNING, ConfigVersion = 2\<rparr>\<rparr>"

definition ex_task_stale :: tracked_Task where
  "ex_task_stale =
     \<lparr>CurrentState = \<lparr>Task_State = TaskState_RUNNING, ConfigVersion = 1\<rparr>,
      GoalState = \<lparr>Task_State = TaskState_RUNNING, ConfigVersion = 2\<rparr>\<rparr>"

definition ex_task_stale_done :: tracked_Task where
  "ex_task_stale_done =
     \<lparr>CurrentState = \<lparr>Task_State = TaskState_SUCCEEDED, ConfigVersion = 1\<rparr>,
      GoalState = \<lparr>Task_State = TaskState_RUNNING, ConfigVersion = 2\<rparr>\<rparr>"

definition ex_task_level :: tracked_Task where
  "ex_task_level =
     \<lparr>CurrentState = \<lparr>Task_State = TaskState_INITIALIZED, ConfigVersion = 2\<rparr>,
      GoalState = \<lparr>Task_State = TaskState_RUNNING, ConfigVersion = 2\<rparr>\<rparr>"



text \<open>The pool of the test \<^verbatim>\<open>TestResPoolTaskCanBeDequeued\<close>, a child of the root
  without siblings, so that no sibling's reservation can be violated: four small tasks
  are enqueued as gangs of one, the two of priority 2 are dequeued, and the task that asks
  for 200 CPUs is enqueued with priority 3 into the pool entitled to 100.\<close>

definition ex_small :: "nat \<Rightarrow> string \<Rightarrow> real resmgr_Task" where
  "ex_small prio name =
     \<lparr>Id = name, Priority = prio, Resource = \<lparr>CPU = 1, Mem = 100, Disk = 10, GPU = 0\<rparr>\<rparr>"

definition ex_bigtask :: "real resmgr_Task" where
  "ex_bigtask =
     \<lparr>Id = ''job3-1'', Priority = 3, Resource = \<lparr>CPU = 200, Mem = 100, Disk = 10, GPU = 0\<rparr>\<rparr>"

definition ex_pool_start :: "real ResPool" where
  "ex_pool_start =
     \<lparr>pendingQueue = [],
      entitlement = \<lparr>CPU = 100, Mem = 1000, Disk = 100, GPU = 2\<rparr>,
      allocation = Resources_zero,
      siblingsReservationsKept = (\<lambda>g. True)\<rparr>"

definition ex_pool_enqueued :: "real ResPool" where
  "ex_pool_enqueued =
     snd (EnqueueGang [ex_small 2 ''job2-2'']
       (snd (EnqueueGang [ex_small 2 ''job2-1'']
         (snd (EnqueueGang [ex_small 1 ''job1-2'']
           (snd (EnqueueGang [ex_small 0 ''job1-1''] ex_pool_start)))))))"

definition ex_pool :: "real ResPool" where
  "ex_pool =
     snd (EnqueueGang [ex_bigtask]
       (snd (DequeueGangList 1 (snd (DequeueGangList 1 ex_pool_enqueued)))))"

text \<open>The pool of the specification's scenario of the priority-FIFO dequeue: the same
  four gangs in a leaf whose entitlement equals the demand of each task.\<close>

definition ex_pool_tight :: "real ResPool" where
  "ex_pool_tight =
     ex_pool_enqueued\<lparr>entitlement := \<lparr>CPU = 1, Mem = 100, Disk = 10, GPU = 0\<rparr>\<rparr>"


section \<open>Properties of the host summary\<close>

subsection \<open>Auxiliary facts\<close>

lemmas HostStatus_defs = ReadyHost_def PlacingHost_def ReservedHost_def HeldHost_def

lemma HostStatus_distinct [simp]:
  "ReadyHost \<noteq> PlacingHost" "ReadyHost \<noteq> ReservedHost" "ReadyHost \<noteq> HeldHost"
  "PlacingHost \<noteq> ReadyHost" "PlacingHost \<noteq> ReservedHost" "PlacingHost \<noteq> HeldHost"
  "ReservedHost \<noteq> ReadyHost" "ReservedHost \<noteq> PlacingHost" "ReservedHost \<noteq> HeldHost"
  "HeldHost \<noteq> ReadyHost" "HeldHost \<noteq> PlacingHost" "HeldHost \<noteq> ReservedHost"
  by (simp_all add: HostStatus_defs)

lemma getAvailable_eq:
  "getAvailable a =
     (if Contains (capacity a) (allocated a)
      then \<lparr>CPU = CPU (capacity a) - CPU (allocated a),
            Mem = Mem (capacity a) - Mem (allocated a),
            Disk = Disk (capacity a) - Disk (allocated a),
            GPU = GPU (capacity a) - GPU (allocated a)\<rparr>
      else Resources_zero)"
  by (simp add: getAvailable_def TrySubtract_def)

lemma validateNewPods_loop_Inr:
  "validateNewPods_loop a new needed = Inr n \<longleftrightarrow>
     (\<forall>p \<in> fst ` set new. p \<notin> fst ` set (podToResMap a)) \<and> n = foldl Add needed (map snd new)"
proof (induction new arbitrary: needed)
  case Nil
  show ?case by auto
next
  case (Cons x rest)
  obtain podID res where x: "x = (podID, res)" by (cases x)
  show ?case
    using Cons.IH[of "Add needed res"]
    by (auto simp: x map_of_eq_None_iff)
qed

lemma validateNewPods_loop_Inl:
  "validateNewPods_loop a new needed = Inl e \<Longrightarrow>
     \<exists>p \<in> fst ` set new. p \<in> fst ` set (podToResMap a) \<and> e = PodAlreadyExists p"
proof (induction new arbitrary: needed)
  case Nil
  then show ?case by simp
next
  case (Cons x rest)
  obtain podID res where x: "x = (podID, res)" by (cases x)
  show ?case
  proof (cases "map_of (podToResMap a) podID = None")
    case True
    with Cons.prems x have "validateNewPods_loop a rest (Add needed res) = Inl e" by simp
    from Cons.IH[OF this] show ?thesis by auto
  next
    case False
    with Cons.prems x have "e = PodAlreadyExists podID" by auto
    moreover from False have "podID \<in> fst ` set (podToResMap a)"
      by (simp add: map_of_eq_None_iff)
    ultimately show ?thesis using x by auto
  qed
qed

lemma validateNewPods_None_iff:
  "validateNewPods new a = None \<longleftrightarrow>
     (\<forall>p \<in> fst ` set new. p \<notin> fst ` set (podToResMap a)) \<and>
     Contains (getAvailable a) (foldl Add Resources_zero (map snd new))"
proof (cases "validateNewPods_loop a new Resources_zero")
  case (Inl e)
  from validateNewPods_loop_Inl[OF Inl] Inl show ?thesis
    by (auto simp: validateNewPods_def)
next
  case (Inr n)
  then show ?thesis
    using validateNewPods_loop_Inr[of a new Resources_zero n]
    by (auto simp: validateNewPods_def)
qed

lemma casStatus_ok:
  "status a = old \<Longrightarrow>
   casStatus old new u a =
     (None, a\<lparr>status := new, leaseID := leaseAfter new u (leaseID a)\<rparr>)"
  by (simp add: casStatus_def leaseAfter_def emptyLeaseID_def HostStatus_defs)

lemma casStatus_wrong:
  "status a \<noteq> old \<Longrightarrow> casStatus old new u a = (Some (InvalidOldStatus old), a)"
  by (simp add: casStatus_def)

lemma casStatus_None:
  "casStatus old new u a = (None, a') \<Longrightarrow>
     a' = a\<lparr>status := new, leaseID := leaseAfter new u (leaseID a)\<rparr>"
  by (cases "status a = old") (simp_all add: casStatus_ok casStatus_wrong)

lemma leaseAfter_simps [simp]:
  "leaseAfter PlacingHost u l = u"
  "leaseAfter ReservedHost u l = u"
  "leaseAfter ReadyHost u l = ''''"
  "leaseAfter HeldHost u l = ''''"
  by (simp_all add: leaseAfter_def HostStatus_defs)

lemma leaseAfter_getResetStatus [simp]: "leaseAfter (getResetStatus a) u l = ''''"
  by (simp add: getResetStatus_def)

lemma getResetStatus_eq:
  "getResetStatus a = (if heldPodIDs a = [] then ReadyHost else HeldHost)"
  by (simp add: getResetStatus_def)

lemma getAvailable_upd [simp]:
  "getAvailable (a\<lparr>status := s, leaseID := l\<rparr>) = getAvailable a"
  by (simp add: getAvailable_def)


lemma leaseInvariant_newHostSummary: "leaseInvariant (newHostSummary h r v)"
  by (simp add: leaseInvariant_def newHostSummary_def HostStatus_defs)

lemma entered_refl: "entered u a a"
  by (simp add: entered_def)

lemma entered_cas:
  "entered u a (a\<lparr>status := new, leaseID := leaseAfter new u (leaseID a)\<rparr>)"
  by (simp add: entered_def)

lemma entered_casStatus: "entered u a (snd (casStatus old new u a))"
proof (cases "status a = old")
  case True
  then show ?thesis by (simp add: casStatus_ok entered_cas)
next
  case False
  then show ?thesis by (simp add: casStatus_wrong entered_refl)
qed

lemma TryMatch_state:
  "snd (TryMatch f u a) = a \<or> snd (TryMatch f u a) = a\<lparr>status := PlacingHost, leaseID := u\<rparr>"
  by (simp add: TryMatch_def Let_def casStatus_ok)

lemma entered_TryMatch: "entered u a (snd (TryMatch f u a))"
  using TryMatch_state[of f u a] entered_refl[of u a] entered_cas[of u a PlacingHost]
  by auto

lemma entered_more:
  "status b = status a' \<Longrightarrow> leaseID b = leaseID a' \<Longrightarrow> entered u a a' \<Longrightarrow> entered u a b"
  by (simp add: entered_def)

lemma CompleteLease_state:
  "snd (CompleteLease l new u a) = a \<or>
   snd (CompleteLease l new u a) = a\<lparr>status := getResetStatus a, leaseID := ''''\<rparr> \<or>
   snd (CompleteLease l new u a) =
     updatePodToResMap new (a\<lparr>status := getResetStatus a, leaseID := ''''\<rparr>)"
proof (cases "status a = PlacingHost \<and> leaseID a = l")
  case False
  then show ?thesis by (auto simp: CompleteLease_def)
next
  case True
  let ?a1 = "a\<lparr>status := getResetStatus a, leaseID := ''''\<rparr>"
  have cas: "casStatus PlacingHost (getResetStatus a) u a = (None, ?a1)"
    using True by (simp add: casStatus_ok)
  show ?thesis
    using True cas by (cases "validateNewPods new ?a1") (simp_all add: CompleteLease_def Let_def)
qed

lemma entered_reset: "entered u a (a\<lparr>status := getResetStatus a, leaseID := ''''\<rparr>)"
  using entered_cas[of u a "getResetStatus a"] by simp

lemma entered_CompleteLease: "entered u a (snd (CompleteLease l new u a))"
proof -
  have "entered u a (updatePodToResMap new (a\<lparr>status := getResetStatus a, leaseID := ''''\<rparr>))"
    by (rule entered_more[OF _ _ entered_reset])
       (simp_all add: updatePodToResMap_def calculateAllocated_def)
  with CompleteLease_state[of l new u a] entered_refl[of u a] entered_reset[of u a]
  show ?thesis by auto
qed

lemma TerminateLease_state:
  "snd (TerminateLease u a) = a \<or>
   snd (TerminateLease u a) = a\<lparr>status := getResetStatus a, leaseID := ''''\<rparr>"
  by (cases "status a = PlacingHost") (simp_all add: TerminateLease_def Let_def casStatus_ok)

lemma entered_TerminateLease: "entered u a (snd (TerminateLease u a))"
  using TerminateLease_state[of u a] entered_refl[of u a] entered_reset[of u a] by auto

lemma CasStatus_state: "snd (CasStatus old new u a) = snd (casStatus old new u a)"
  by (simp add: CasStatus_def split: prod.splits option.splits)

lemma entered_CasStatus: "entered u a (snd (CasStatus old new u a))"
  by (simp add: CasStatus_state entered_casStatus)

lemma entered_applyOp: "entered u a (applyOp op u a)"
proof (cases op)
  case (OpTryMatch f)
  then show ?thesis by (simp add: entered_TryMatch)
next
  case (OpCompleteLease l new)
  then show ?thesis by (simp add: entered_CompleteLease)
next
  case OpTerminateLease
  then show ?thesis by (simp add: entered_TerminateLease)
next
  case (OpCasStatus old new)
  then show ?thesis by (simp add: entered_CasStatus)
next
  case (OpReleasePodResources podID)
  then show ?thesis
    by (simp add: entered_def ReleasePodResources_def calculateAllocated_def)
next
  case (OpSetCapacity r)
  then show ?thesis by (simp add: entered_def SetCapacity_def)
next
  case (OpSetVersion v)
  then show ?thesis by (simp add: entered_def SetVersion_def)
qed

lemma declaredStatus_getResetStatus [simp]: "declaredStatus (getResetStatus a)"
  by (simp add: declaredStatus_def getResetStatus_def)

lemma declaredStatus_casStatus:
  "declaredStatus new \<Longrightarrow> declaredStatus (status a) \<Longrightarrow>
   declaredStatus (status (snd (casStatus old new u a)))"
  by (cases "status a = old") (simp_all add: casStatus_ok casStatus_wrong)

lemma declaredStatus_applyOp:
  assumes "declaredOp op" and "declaredStatus (status a)"
  shows "declaredStatus (status (applyOp op u a))"
proof (cases op)
  case (OpTryMatch f)
  with assms(2) TryMatch_state[of f u a] show ?thesis
    by (auto simp: declaredStatus_def)
next
  case (OpCompleteLease l new)
  have "status (updatePodToResMap new b) = status b" for b :: "'a hostSummary"
    by (simp add: updatePodToResMap_def calculateAllocated_def)
  with OpCompleteLease assms(2) CompleteLease_state[of l new u a] show ?thesis
    by auto
next
  case OpTerminateLease
  with assms(2) TerminateLease_state[of u a] show ?thesis by auto
next
  case (OpCasStatus old new)
  with assms show ?thesis
    by (simp add: CasStatus_state declaredStatus_casStatus)
next
  case (OpReleasePodResources podID)
  with assms(2) show ?thesis
    by (simp add: ReleasePodResources_def calculateAllocated_def)
next
  case (OpSetCapacity r)
  with assms(2) show ?thesis by (simp add: SetCapacity_def)
next
  case (OpSetVersion v)
  with assms(2) show ?thesis by (simp add: SetVersion_def)
qed

lemma leaseInvariant_applyOp:
  assumes "u \<noteq> ''''" and "declaredOp op"
    and "leaseInvariant a" and "declaredStatus (status a)"
  shows "leaseInvariant (applyOp op u a)"
proof -
  have d: "declaredStatus (status (applyOp op u a))"
    using assms(2,4) by (rule declaredStatus_applyOp)
  show ?thesis
    using assms(1,3) d entered_applyOp[of u a op]
    unfolding leaseInvariant_def entered_def leaseAfter_def declaredStatus_def
    by (auto split: if_splits)
qed

lemma leaseInvariant_runOps:
  "\<forall>x \<in> set ops. declaredOp (fst x) \<and> snd x \<noteq> '''' \<Longrightarrow>
   leaseInvariant a \<Longrightarrow> declaredStatus (status a) \<Longrightarrow>
   leaseInvariant (runOps ops a) \<and> declaredStatus (status (runOps ops a))"
proof (induction ops arbitrary: a)
  case Nil
  then show ?case by simp
next
  case (Cons x ops)
  obtain op u where x: "x = (op, u)" by (cases x)
  from Cons.prems(1) x have u: "u \<noteq> ''''" and op: "declaredOp op" by simp_all
  have "leaseInvariant (applyOp op u a)"
    using u op Cons.prems(2,3) by (rule leaseInvariant_applyOp)
  moreover have "declaredStatus (status (applyOp op u a))"
    using op Cons.prems(3) by (rule declaredStatus_applyOp)
  ultimately show ?case
    using Cons.IH[of "applyOp op u a"] Cons.prems(1) x by simp
qed

lemma applyOp_entering:
  assumes "status (applyOp op u a) \<noteq> status a"
  shows "leaseID (applyOp op u a) = leaseAfter (status (applyOp op u a)) u (leaseID a)"
  using assms entered_applyOp[of u a op] unfolding entered_def by blast

lemma leaseID_runOps_drawn:
  "leaseID (runOps ops a) \<in> insert (leaseID a) (insert '''' (snd ` set ops))"
proof (induction ops arbitrary: a)
  case Nil
  then show ?case by simp
next
  case (Cons x ops)
  obtain op u where x: "x = (op, u)" by (cases x)
  have "leaseID (applyOp op u a) \<in> {leaseID a, '''', u}"
    using entered_applyOp[of u a op] unfolding entered_def leaseAfter_def
    by (auto split: if_splits)
  with Cons.IH[of "applyOp op u a"] x show ?case by auto
qed

lemma hintFound_iff:
  "hintFound f a \<longleftrightarrow> (\<exists>h \<in> set (GetHostHint (GetHint f)). GetHostname h = hostname a)"
  by (simp add: hintFound_def list_ex_iff)

lemma matchHostFilter_cases:
  "matchHostFilter f a =
     (if \<exists>min. GetMinimum (GetResourceConstraint f) = Some min \<and>
               \<not> Contains (getAvailable a) (FromResourceSpec min)
      then HOST_FILTER_INSUFFICIENT_RESOURCES else HOST_FILTER_MATCH)"
  by (cases "GetMinimum (GetResourceConstraint f)") (simp_all add: matchHostFilter_def Let_def)

lemma TryMatch_locked:
  "status a \<noteq> ReadyHost \<Longrightarrow> status a \<noteq> HeldHost \<Longrightarrow>
   TryMatch f u a = (\<lparr>Result = HOST_FILTER_MISMATCH_STATUS, HostName = ''''\<rparr>, a)"
  by (simp add: TryMatch_def)

lemma TryMatch_held_unhinted:
  "status a = HeldHost \<Longrightarrow> \<not> hintFound f a \<Longrightarrow>
   TryMatch f u a = (\<lparr>Result = HOST_FILTER_MISMATCH_STATUS, HostName = ''''\<rparr>, a)"
  by (simp add: TryMatch_def)

lemma TryMatch_eligible:
  "status a = ReadyHost \<or> (status a = HeldHost \<and> hintFound f a) \<Longrightarrow>
   TryMatch f u a =
     (if matchHostFilter f a \<noteq> HOST_FILTER_MATCH
      then (\<lparr>Result = matchHostFilter f a, HostName = ''''\<rparr>, a)
      else (\<lparr>Result = HOST_FILTER_MATCH, HostName = hostname a\<rparr>,
            a\<lparr>status := PlacingHost, leaseID := u\<rparr>))"
  by (auto simp add: TryMatch_def Let_def casStatus_ok)


lemma ex_ready_eq:
  "ex_ready =
     \<lparr>hostname = ''host1'', capacity = \<lparr>CPU = 4, Mem = 8192, Disk = 100000, GPU = 0\<rparr>,
      allocated = Resources_zero, labels = [], podToResMap = [], heldPodIDs = [],
      status = ReadyHost, leaseID = '''', version = ''v1''\<rparr>"
  by (simp add: ex_ready_def ex_capacity_def newHostSummary_def FromPelotonResources_def)

lemmas ex_eval =
  getAvailable_def TrySubtract_def Contains_def Resources_zero_def Add_def
  GetMinimum_def GetResourceConstraint_def GetHint_def GetHostHint_def GetHostname_def
  FromResourceSpec_def

lemma ex_placing_eq:
  "ex_placing =
     \<lparr>hostname = ''host1'', capacity = \<lparr>CPU = 4, Mem = 8192, Disk = 100000, GPU = 0\<rparr>,
      allocated = Resources_zero, labels = [], podToResMap = [], heldPodIDs = [],
      status = PlacingHost, leaseID = ''L'', version = ''v1''\<rparr>"
  by (simp add: ex_placing_def ex_ready_eq ex_filter_def ex_eval TryMatch_def
        matchHostFilter_def casStatus_def)

lemma ex_busy_ready_eq:
  "ex_busy_ready =
     \<lparr>hostname = ''host1'', capacity = \<lparr>CPU = 4, Mem = 8192, Disk = 100000, GPU = 0\<rparr>,
      allocated = \<lparr>CPU = 3, Mem = 4096, Disk = 0, GPU = 0\<rparr>, labels = [],
      podToResMap = [(''pod0'', \<lparr>CPU = 3, Mem = 4096, Disk = 0, GPU = 0\<rparr>)], heldPodIDs = [],
      status = ReadyHost, leaseID = '''', version = ''v1''\<rparr>"
  by (simp add: ex_busy_ready_def ex_placing_eq ex_pod0_def ex_eval CompleteLease_def
        casStatus_def getResetStatus_def validateNewPods_def updatePodToResMap_def
        calculateAllocated_def emptyLeaseID_def)

lemma ex_busy_placing_eq:
  "ex_busy_placing =
     \<lparr>hostname = ''host1'', capacity = \<lparr>CPU = 4, Mem = 8192, Disk = 100000, GPU = 0\<rparr>,
      allocated = \<lparr>CPU = 3, Mem = 4096, Disk = 0, GPU = 0\<rparr>, labels = [],
      podToResMap = [(''pod0'', \<lparr>CPU = 3, Mem = 4096, Disk = 0, GPU = 0\<rparr>)], heldPodIDs = [],
      status = PlacingHost, leaseID = ''L2'', version = ''v1''\<rparr>"
  by (simp add: ex_busy_placing_def ex_busy_ready_eq ex_filter_def ex_eval TryMatch_def
        matchHostFilter_def casStatus_def)

lemma ex_ops_status: "status (runOps ex_ops ex_ready) = ReservedHost"
  by (simp add: ex_ops_def ex_ready_eq ex_filter_def ex_eval TryMatch_def matchHostFilter_def
        casStatus_def CompleteLease_def getResetStatus_def validateNewPods_def
        updatePodToResMap_def calculateAllocated_def CasStatus_def ReleasePodResources_def
        emptyLeaseID_def)

lemma ex_ops_undeclared_run:
  "runOps ex_ops_undeclared ex_ready = ex_placing\<lparr>status := 9\<rparr>"
  by (simp add: ex_ops_undeclared_def ex_placing_eq ex_ready_eq ex_filter_def ex_eval
        TryMatch_def matchHostFilter_def casStatus_def CasStatus_def HostStatus_defs)

text \<open>The lease life cycle on the concrete host: match, completion with one pod, release
  of that pod.\<close>

lemma lease_lifecycle_scenario:
  "TryMatch (Some ex_filter) ''L'' ex_ready =
     (\<lparr>Result = HOST_FILTER_MATCH, HostName = ''host1''\<rparr>, ex_placing) \<and>
   CompleteLease ''L'' [(''pod1'', \<lparr>CPU = 1, Mem = 1024, Disk = 0, GPU = 0\<rparr>)] ''u'' ex_placing =
     (None, ex_ready\<lparr>podToResMap := [(''pod1'', \<lparr>CPU = 1, Mem = 1024, Disk = 0, GPU = 0\<rparr>)],
                     allocated := \<lparr>CPU = 1, Mem = 1024, Disk = 0, GPU = 0\<rparr>\<rparr>) \<and>
   ReleasePodResources ''pod1''
     (ex_ready\<lparr>podToResMap := [(''pod1'', \<lparr>CPU = 1, Mem = 1024, Disk = 0, GPU = 0\<rparr>)],
               allocated := \<lparr>CPU = 1, Mem = 1024, Disk = 0, GPU = 0\<rparr>\<rparr>) = ex_ready"
proof (intro conjI)
  show "TryMatch (Some ex_filter) ''L'' ex_ready =
     (\<lparr>Result = HOST_FILTER_MATCH, HostName = ''host1''\<rparr>, ex_placing)"
    by (simp add: ex_placing_eq ex_ready_eq ex_filter_def ex_eval TryMatch_def
          matchHostFilter_def casStatus_def)
  show "CompleteLease ''L'' [(''pod1'', \<lparr>CPU = 1, Mem = 1024, Disk = 0, GPU = 0\<rparr>)] ''u'' ex_placing =
     (None, ex_ready\<lparr>podToResMap := [(''pod1'', \<lparr>CPU = 1, Mem = 1024, Disk = 0, GPU = 0\<rparr>)],
                     allocated := \<lparr>CPU = 1, Mem = 1024, Disk = 0, GPU = 0\<rparr>\<rparr>)"
    by (simp add: ex_placing_eq ex_ready_eq ex_eval CompleteLease_def casStatus_def
          getResetStatus_def validateNewPods_def updatePodToResMap_def calculateAllocated_def
          emptyLeaseID_def)
  show "ReleasePodResources ''pod1''
     (ex_ready\<lparr>podToResMap := [(''pod1'', \<lparr>CPU = 1, Mem = 1024, Disk = 0, GPU = 0\<rparr>)],
               allocated := \<lparr>CPU = 1, Mem = 1024, Disk = 0, GPU = 0\<rparr>\<rparr>) = ex_ready"
    by (simp add: ex_ready_eq ReleasePodResources_def calculateAllocated_def Resources_zero_def)
qed

subsection \<open>Completing a lease\<close>

text \<open>
  C1. For a host in status \<open>PlacingHost\<close> whose lease ID equals the supplied one,
  \<^verbatim>\<open>CompleteLease\<close> first puts the host back to \<open>ReadyHost\<close> (to \<open>HeldHost\<close> when
  \<open>heldPodIDs\<close> is not empty) and clears the lease ID, and only then validates the new
  pods: none of their IDs is already in \<open>podToResMap\<close>, and the sum of their resources,
  added up in the order of the loop, is contained in the available resources, which are
  capacity minus allocation component by component (and zero when the capacity does not
  contain the allocation). When the validation fails the result is an \<open>InvalidArgument\<close>
  error, and the host has left \<open>PlacingHost\<close> all the same; when it succeeds the pods are
  added to the host that was put back.
\<close>

theorem CompleteLease_unlocks_then_validates:
  assumes "status a = PlacingHost" and "leaseID a = lid"
  shows "let (err, a') = CompleteLease lid new u a;
             a1 = a\<lparr>status := (if heldPodIDs a = [] then ReadyHost else HeldHost), leaseID := ''''\<rparr>;
             available =
               (if Contains (capacity a) (allocated a)
                then \<lparr>CPU = CPU (capacity a) - CPU (allocated a),
                      Mem = Mem (capacity a) - Mem (allocated a),
                      Disk = Disk (capacity a) - Disk (allocated a),
                      GPU = GPU (capacity a) - GPU (allocated a)\<rparr>
                else Resources_zero);
             needed = foldl Add Resources_zero (map snd new);
             valid = ((\<forall>p \<in> fst ` set new. p \<notin> fst ` set (podToResMap a)) \<and>
                      Contains available needed)
         in status a' = (if heldPodIDs a = [] then ReadyHost else HeldHost) \<and>
            status a' \<noteq> PlacingHost \<and> leaseID a' = '''' \<and>
            (valid \<longrightarrow> err = None \<and> a' = updatePodToResMap new a1) \<and>
            (\<not> valid \<longrightarrow> (\<exists>e. err = Some (InvalidArgument (PodValidationFailed e))) \<and> a' = a1)"
proof -
  let ?a1 = "a\<lparr>status := (if heldPodIDs a = [] then ReadyHost else HeldHost), leaseID := ''''\<rparr>"
  have cas: "casStatus PlacingHost (getResetStatus a) u a = (None, ?a1)"
    using assms(1) by (simp add: casStatus_ok getResetStatus_eq)
  have v: "validateNewPods new ?a1 = None \<longleftrightarrow>
      (\<forall>p \<in> fst ` set new. p \<notin> fst ` set (podToResMap a)) \<and>
      Contains (getAvailable a) (foldl Add Resources_zero (map snd new))"
    by (simp add: validateNewPods_None_iff)
  have s: "status (updatePodToResMap new ?a1) = status ?a1"
          "leaseID (updatePodToResMap new ?a1) = leaseID ?a1"
    by (simp_all add: updatePodToResMap_def calculateAllocated_def)
  show ?thesis
  proof (cases "validateNewPods new ?a1")
    case None
    then have "CompleteLease lid new u a = (None, updatePodToResMap new ?a1)"
      using assms cas by (simp add: CompleteLease_def Let_def)
    with None v s show ?thesis
      by (simp add: Let_def getAvailable_eq)
  next
    case (Some e)
    then have "CompleteLease lid new u a = (Some (InvalidArgument (PodValidationFailed e)), ?a1)"
      using assms cas by (simp add: CompleteLease_def Let_def)
    with Some v show ?thesis
      by (simp add: Let_def getAvailable_eq)
  qed
qed

theorem CompleteLease_unlocks_then_validates_witness:
  "status ex_busy_placing = PlacingHost \<and> leaseID ex_busy_placing = ''L2'' \<and>
   allocated ex_busy_placing = \<lparr>CPU = 3, Mem = 4096, Disk = 0, GPU = 0\<rparr> \<and>
   Contains (capacity ex_busy_placing) ex_two_cpus \<and>
   (\<exists>e. fst (CompleteLease ''L2'' [(''pod1'', ex_two_cpus)] ''u'' ex_busy_placing)
        = Some (InvalidArgument (PodValidationFailed e))) \<and>
   snd (CompleteLease ''L2'' [(''pod1'', ex_two_cpus)] ''u'' ex_busy_placing) = ex_busy_ready \<and>
   fst (CompleteLease ''L2'' [(''pod1'', \<lparr>CPU = 1, Mem = 1024, Disk = 0, GPU = 0\<rparr>)] ''u''
          ex_busy_placing) = None \<and>
   status (snd (CompleteLease ''L2'' [(''pod1'', \<lparr>CPU = 1, Mem = 1024, Disk = 0, GPU = 0\<rparr>)] ''u''
          ex_busy_placing)) = ReadyHost"
proof -
  have h: "status ex_busy_placing = PlacingHost" "leaseID ex_busy_placing = ''L2''"
    by (simp_all add: ex_busy_placing_eq)
  have 1: "(\<exists>e. fst (CompleteLease ''L2'' [(''pod1'', ex_two_cpus)] ''u'' ex_busy_placing)
        = Some (InvalidArgument (PodValidationFailed e))) \<and>
      snd (CompleteLease ''L2'' [(''pod1'', ex_two_cpus)] ''u'' ex_busy_placing) = ex_busy_ready"
    using CompleteLease_unlocks_then_validates
            [OF h, of "[(''pod1'', ex_two_cpus)]" "''u''"]
    by (simp add: ex_busy_placing_eq ex_busy_ready_eq ex_two_cpus_def Contains_def
          Resources_zero_def Add_def split: prod.splits)
  have 2: "fst (CompleteLease ''L2'' [(''pod1'', \<lparr>CPU = 1, Mem = 1024, Disk = 0, GPU = 0\<rparr>)] ''u''
          ex_busy_placing) = None \<and>
      status (snd (CompleteLease ''L2'' [(''pod1'', \<lparr>CPU = 1, Mem = 1024, Disk = 0, GPU = 0\<rparr>)] ''u''
          ex_busy_placing)) = ReadyHost"
    using CompleteLease_unlocks_then_validates
            [OF h, of "[(''pod1'', \<lparr>CPU = 1, Mem = 1024, Disk = 0, GPU = 0\<rparr>)]" "''u''"]
    by (simp add: ex_busy_placing_eq Contains_def Resources_zero_def Add_def
          split: prod.splits)
  show ?thesis
    using h 1 2
    by (simp add: ex_busy_placing_eq ex_two_cpus_def Contains_def)
qed


subsection \<open>Matching a host\<close>

text \<open>
  C2. \<^verbatim>\<open>TryMatch\<close> answers \<open>HOST_FILTER_MISMATCH_STATUS\<close> when the status is neither
  \<open>ReadyHost\<close> nor \<open>HeldHost\<close>, and when it is \<open>HeldHost\<close> but no host hint of the filter
  names this host. Otherwise, when the filter has a minimum resource requirement that
  the available resources do not contain, it answers
  \<open>HOST_FILTER_INSUFFICIENT_RESOURCES\<close> and leaves the summary, hence the status,
  unchanged; the available resources are capacity minus allocation component by
  component (and zero when the capacity does not contain the allocation). In every
  remaining case it answers \<open>HOST_FILTER_MATCH\<close>. On a match the host is in
  \<open>PlacingHost\<close>, under the new lease ID.
\<close>

theorem TryMatch_results:
  "let (m, a') = TryMatch f u a;
       hinted = (\<exists>h \<in> set (GetHostHint (GetHint f)). GetHostname h = hostname a);
       eligible = (status a = ReadyHost \<or> (status a = HeldHost \<and> hinted));
       available =
         (if Contains (capacity a) (allocated a)
          then \<lparr>CPU = CPU (capacity a) - CPU (allocated a),
                Mem = Mem (capacity a) - Mem (allocated a),
                Disk = Disk (capacity a) - Disk (allocated a),
                GPU = GPU (capacity a) - GPU (allocated a)\<rparr>
          else Resources_zero);
       short = (\<exists>min. GetMinimum (GetResourceConstraint f) = Some min \<and>
                  \<not> Contains available (FromResourceSpec min))
   in (status a \<noteq> ReadyHost \<and> status a \<noteq> HeldHost \<longrightarrow>
         Result m = HOST_FILTER_MISMATCH_STATUS \<and> a' = a) \<and>
      (status a = HeldHost \<and> \<not> hinted \<longrightarrow>
         Result m = HOST_FILTER_MISMATCH_STATUS \<and> a' = a) \<and>
      (eligible \<and> short \<longrightarrow>
         Result m = HOST_FILTER_INSUFFICIENT_RESOURCES \<and> a' = a \<and> status a' = status a) \<and>
      (eligible \<and> \<not> short \<longrightarrow> Result m = HOST_FILTER_MATCH) \<and>
      (Result m = HOST_FILTER_MATCH \<longrightarrow>
         a' = a\<lparr>status := PlacingHost, leaseID := u\<rparr> \<and> status a' = PlacingHost)"
proof -
  consider (locked) "status a \<noteq> ReadyHost" "status a \<noteq> HeldHost"
    | (unhinted) "status a = HeldHost" "\<not> hintFound f a"
    | (eligible) "status a = ReadyHost \<or> (status a = HeldHost \<and> hintFound f a)"
    by blast
  then show ?thesis
  proof cases
    case locked
    then show ?thesis
      by (simp add: TryMatch_locked)
  next
    case unhinted
    then show ?thesis
      by (simp add: TryMatch_held_unhinted hintFound_iff)
  next
    case eligible
    then have hinted: "status a = ReadyHost \<or>
        (status a = HeldHost \<and> (\<exists>h \<in> set (GetHostHint (GetHint f)). GetHostname h = hostname a))"
      by (simp add: hintFound_iff)
    show ?thesis
    proof (cases "\<exists>min. GetMinimum (GetResourceConstraint f) = Some min \<and>
                  \<not> Contains (getAvailable a) (FromResourceSpec min)")
      case True
      then have "matchHostFilter f a = HOST_FILTER_INSUFFICIENT_RESOURCES"
        by (simp add: matchHostFilter_cases)
      then have "TryMatch f u a = (\<lparr>Result = HOST_FILTER_INSUFFICIENT_RESOURCES, HostName = ''''\<rparr>, a)"
        using eligible by (simp add: TryMatch_eligible)
      with True hinted show ?thesis
        unfolding getAvailable_eq by auto
    next
      case False
      then have "matchHostFilter f a = HOST_FILTER_MATCH"
        by (simp add: matchHostFilter_cases)
      then have "TryMatch f u a = (\<lparr>Result = HOST_FILTER_MATCH, HostName = hostname a\<rparr>,
            a\<lparr>status := PlacingHost, leaseID := u\<rparr>)"
        using eligible by (simp add: TryMatch_eligible)
      with False hinted show ?thesis
        unfolding getAvailable_eq by auto
    qed
  qed
qed

theorem TryMatch_results_witness:
  "status ex_busy_ready = ReadyHost \<and>
   allocated ex_busy_ready = \<lparr>CPU = 3, Mem = 4096, Disk = 0, GPU = 0\<rparr> \<and>
   Contains (capacity ex_busy_ready) (FromResourceSpec
     \<lparr>CpuLimit = 2, MemLimitMb = 1024, DiskLimitMb = 0, GpuLimit = 0\<rparr>) \<and>
   Result (fst (TryMatch (Some ex_two_cpu_filter) ''L2'' ex_busy_ready)) =
     HOST_FILTER_INSUFFICIENT_RESOURCES \<and>
   snd (TryMatch (Some ex_two_cpu_filter) ''L2'' ex_busy_ready) = ex_busy_ready \<and>
   Result (fst (TryMatch (Some ex_filter) ''L2'' ex_busy_ready)) = HOST_FILTER_MATCH \<and>
   status (snd (TryMatch (Some ex_filter) ''L2'' ex_busy_ready)) = PlacingHost \<and>
   status ex_placing = PlacingHost \<and>
   Result (fst (TryMatch (Some ex_filter) ''M'' ex_placing)) = HOST_FILTER_MISMATCH_STATUS \<and>
   status ex_held = HeldHost \<and>
   Result (fst (TryMatch (Some ex_filter) ''M'' ex_held)) = HOST_FILTER_MISMATCH_STATUS"
proof -
  have 1: "Result (fst (TryMatch (Some ex_filter) ''L2'' ex_busy_ready)) = HOST_FILTER_MATCH \<and>
           status (snd (TryMatch (Some ex_filter) ''L2'' ex_busy_ready)) = PlacingHost"
    using TryMatch_results[of "Some ex_filter" "''L2''" ex_busy_ready]
    by (simp add: ex_busy_ready_eq ex_filter_def ex_eval Let_def split: prod.splits)
  have 2: "Result (fst (TryMatch (Some ex_two_cpu_filter) ''L2'' ex_busy_ready)) =
             HOST_FILTER_INSUFFICIENT_RESOURCES \<and>
           snd (TryMatch (Some ex_two_cpu_filter) ''L2'' ex_busy_ready) = ex_busy_ready"
    using TryMatch_results[of "Some ex_two_cpu_filter" "''L2''" ex_busy_ready]
    by (simp add: ex_busy_ready_eq ex_two_cpu_filter_def ex_eval Let_def split: prod.splits)
  have 3: "Result (fst (TryMatch (Some ex_filter) ''M'' ex_placing)) = HOST_FILTER_MISMATCH_STATUS"
    using TryMatch_results[of "Some ex_filter" "''M''" ex_placing]
    by (simp add: ex_placing_eq Let_def split: prod.splits)
  have 4: "Result (fst (TryMatch (Some ex_filter) ''M'' ex_held)) = HOST_FILTER_MISMATCH_STATUS"
    using TryMatch_results[of "Some ex_filter" "''M''" ex_held]
    by (simp add: ex_held_def ex_ready_eq ex_filter_def ex_eval Let_def split: prod.splits)
  show ?thesis
    using 1 2 3 4
    by (simp add: ex_placing_eq ex_busy_ready_eq ex_ready_eq ex_held_def Contains_def
          FromResourceSpec_def)
qed

text \<open>
  C10. For a host in status \<open>ReadyHost\<close> and a filter without a minimum resource
  requirement (a nil filter, a nil resource constraint or a nil minimum), \<^verbatim>\<open>TryMatch\<close>
  answers \<open>HOST_FILTER_MATCH\<close> and puts the host into \<open>PlacingHost\<close> whatever capacity
  and allocation are: the available resources are compared only with a minimum that is
  present.
\<close>

theorem TryMatch_without_minimum:
  assumes "status a = ReadyHost" and "GetMinimum (GetResourceConstraint f) = None"
  shows "TryMatch f u a =
           (\<lparr>Result = HOST_FILTER_MATCH, HostName = hostname a\<rparr>,
            a\<lparr>status := PlacingHost, leaseID := u\<rparr>)"
proof -
  from assms(2) have "matchHostFilter f a = HOST_FILTER_MATCH"
    by (simp add: matchHostFilter_cases)
  with assms(1) show ?thesis
    by (simp add: TryMatch_eligible)
qed

theorem TryMatch_without_minimum_witness:
  "status ex_overcommitted = ReadyHost \<and>
   GetMinimum (GetResourceConstraint (Some \<lparr>ResourceConstraint = None, Hint = None\<rparr>)) = None \<and>
   \<not> Contains (capacity ex_overcommitted) (allocated ex_overcommitted) \<and>
   Result (fst (TryMatch (Some \<lparr>ResourceConstraint = None, Hint = None\<rparr>) ''L'' ex_overcommitted))
     = HOST_FILTER_MATCH \<and>
   status (snd (TryMatch (Some \<lparr>ResourceConstraint = None, Hint = None\<rparr>) ''L'' ex_overcommitted))
     = PlacingHost"
  using TryMatch_without_minimum
          [of ex_overcommitted "Some \<lparr>ResourceConstraint = None, Hint = None\<rparr>" "''L''"]
  by (simp add: ex_overcommitted_def ex_eval)

subsection \<open>A stale lease\<close>

text \<open>
  C4. For a host in status \<open>PlacingHost\<close>, \<^verbatim>\<open>CompleteLease\<close> with a lease ID other than
  the host's returns an \<open>InvalidArgument\<close> error and leaves the whole summary as it was
  (status, lease ID, \<open>podToResMap\<close>, \<open>allocated\<close> and all other fields); a
  \<^verbatim>\<open>TerminateLease\<close> after it succeeds and puts the host back to \<open>ReadyHost\<close>, or to
  \<open>HeldHost\<close> when pods are held.
\<close>

theorem CompleteLease_stale_lease:
  assumes "status a = PlacingHost" and "lid \<noteq> leaseID a"
  shows "CompleteLease lid new u a = (Some (InvalidArgument HostLeaseIDMismatch), a) \<and>
         TerminateLease u' (snd (CompleteLease lid new u a)) =
           (None, a\<lparr>status := (if heldPodIDs a = [] then ReadyHost else HeldHost),
                    leaseID := ''''\<rparr>)"
proof -
  from assms have c: "CompleteLease lid new u a = (Some (InvalidArgument HostLeaseIDMismatch), a)"
    by (simp add: CompleteLease_def)
  from assms(1) have "TerminateLease u' a =
      (None, a\<lparr>status := (if heldPodIDs a = [] then ReadyHost else HeldHost), leaseID := ''''\<rparr>)"
    by (simp add: TerminateLease_def casStatus_ok getResetStatus_eq)
  with c show ?thesis by simp
qed

theorem CompleteLease_stale_lease_witness:
  "status ex_placing = PlacingHost \<and> ''other'' \<noteq> leaseID ex_placing \<and>
   CompleteLease ''other'' [(''pod1'', \<lparr>CPU = 1, Mem = 1024, Disk = 0, GPU = 0\<rparr>)] ''u'' ex_placing
     = (Some (InvalidArgument HostLeaseIDMismatch), ex_placing) \<and>
   TerminateLease ''u''
     (snd (CompleteLease ''other'' [(''pod1'', \<lparr>CPU = 1, Mem = 1024, Disk = 0, GPU = 0\<rparr>)] ''u''
        ex_placing))
     = (None, ex_ready)"
  using CompleteLease_stale_lease
          [of ex_placing "''other''" "[(''pod1'', \<lparr>CPU = 1, Mem = 1024, Disk = 0, GPU = 0\<rparr>)]"
              "''u''" "''u''"]
  by (auto simp add: ex_placing_eq ex_ready_eq)

subsection \<open>Compare and set of the status\<close>

text \<open>
  C5, as amended. When \<open>x\<close> is the current status, \<^verbatim>\<open>CasStatus(x, x)\<close> succeeds and
  leaves every field but the lease ID unchanged; the lease ID is set again as on every
  entry into \<open>x\<close>: a new UUID for \<open>PlacingHost\<close> and \<open>ReservedHost\<close>, empty for \<open>ReadyHost\<close>
  and \<open>HeldHost\<close> (and kept for an integer that is none of the four constants), so that
  the call changes nothing at all on a ready or held host whose lease ID is empty. When
  \<open>old\<close> is not the current status, \<^verbatim>\<open>CasStatus(old, new)\<close> returns an error and changes
  nothing.
\<close>

theorem CasStatus_same_or_wrong:
  "(status a = x \<longrightarrow>
      CasStatus x x u a =
        (None, a\<lparr>leaseID := (if x = PlacingHost \<or> x = ReservedHost then u
                               else if x = ReadyHost \<or> x = HeldHost then ''''
                               else leaseID a)\<rparr>)) \<and>
   (status a = x \<and> (x = ReadyHost \<or> x = HeldHost) \<and> leaseID a = '''' \<longrightarrow>
      CasStatus x x u a = (None, a)) \<and>
   (status a \<noteq> old \<longrightarrow>
      CasStatus old new u a =
        (Some (InvalidArgument (FailedToSetCasStatus (InvalidOldStatus old))), a))"
proof (intro conjI impI)
  assume "status a = x"
  then show "CasStatus x x u a =
        (None, a\<lparr>leaseID := (if x = PlacingHost \<or> x = ReservedHost then u
                               else if x = ReadyHost \<or> x = HeldHost then ''''
                               else leaseID a)\<rparr>)"
    by (auto simp add: CasStatus_def casStatus_ok leaseAfter_def)
next
  assume "status a = x \<and> (x = ReadyHost \<or> x = HeldHost) \<and> leaseID a = ''''"
  then show "CasStatus x x u a = (None, a)"
    by (auto simp add: CasStatus_def casStatus_ok)
next
  assume "status a \<noteq> old"
  then show "CasStatus old new u a =
        (Some (InvalidArgument (FailedToSetCasStatus (InvalidOldStatus old))), a)"
    by (simp add: CasStatus_def casStatus_wrong)
qed

theorem CasStatus_same_or_wrong_witness:
  "status ex_placing = PlacingHost \<and>
   CasStatus PlacingHost PlacingHost ''M'' ex_placing = (None, ex_placing\<lparr>leaseID := ''M''\<rparr>) \<and>
   status ex_ready = ReadyHost \<and> leaseID ex_ready = '''' \<and>
   CasStatus ReadyHost ReadyHost ''M'' ex_ready = (None, ex_ready) \<and>
   status ex_ready \<noteq> PlacingHost \<and>
   CasStatus PlacingHost ReadyHost ''M'' ex_ready =
     (Some (InvalidArgument (FailedToSetCasStatus (InvalidOldStatus PlacingHost))), ex_ready)"
  using CasStatus_same_or_wrong[of ex_placing PlacingHost "''M''"]
        CasStatus_same_or_wrong[of ex_ready ReadyHost "''M''" PlacingHost ReadyHost]
  by (simp add: ex_placing_eq ex_ready_eq)

text \<open>The claim as first stated, that \<^verbatim>\<open>CasStatus(x, x)\<close> leaves the lease ID unchanged,
  fails on a placing host: the lease \<open>L\<close> is replaced by the UUID drawn by the call.\<close>

theorem CasStatus_same_counterexample:
  "status ex_placing = PlacingHost \<and>
   fst (CasStatus PlacingHost PlacingHost ''M'' ex_placing) = None \<and>
   leaseID ex_placing = ''L'' \<and>
   leaseID (snd (CasStatus PlacingHost PlacingHost ''M'' ex_placing)) = ''M'' \<and>
   snd (CasStatus PlacingHost PlacingHost ''M'' ex_placing) \<noteq> ex_placing"
  by (simp add: ex_placing_eq CasStatus_def casStatus_def HostStatus_defs)

subsection \<open>The lease ID and the status\<close>

text \<open>
  C3, as amended. In every summary reached from \<^verbatim>\<open>newHostSummary\<close> by exported
  operations (\<^verbatim>\<open>TryMatch\<close>, \<^verbatim>\<open>CompleteLease\<close>, \<^verbatim>\<open>TerminateLease\<close>, \<^verbatim>\<open>CasStatus\<close>,
  \<^verbatim>\<open>ReleasePodResources\<close>, and the two setters) in which every \<^verbatim>\<open>CasStatus\<close> names one
  of the four declared statuses as the new status, the lease ID is not empty if and only
  if the status is \<open>PlacingHost\<close> or \<open>ReservedHost\<close>, given that \<^verbatim>\<open>uuid.New()\<close> never returns
  the empty string. Every successful \<^verbatim>\<open>casStatus\<close>, hence every exported operation that
  changes the status, clears the lease ID on entering \<open>ReadyHost\<close> or \<open>HeldHost\<close> and
  stores the UUID drawn at that call on entering \<open>PlacingHost\<close> or \<open>ReservedHost\<close>. The
  lease ID of a reachable summary is empty or a UUID drawn earlier in the run, so a UUID
  that \<^verbatim>\<open>uuid.New()\<close> has not returned before is a lease ID the host has not now.
\<close>

theorem leaseID_iff_Placing_or_Reserved:
  "((\<forall>x \<in> set ops. declaredOp (fst x) \<and> snd x \<noteq> '''') \<longrightarrow>
      (leaseID (runOps ops (newHostSummary h r v)) \<noteq> '''' \<longleftrightarrow>
         status (runOps ops (newHostSummary h r v)) = PlacingHost \<or>
         status (runOps ops (newHostSummary h r v)) = ReservedHost)) \<and>
   (casStatus old new u a = (None, a') \<longrightarrow>
      status a' = new \<and>
      (new = ReadyHost \<or> new = HeldHost \<longrightarrow> leaseID a' = '''') \<and>
      (new = PlacingHost \<or> new = ReservedHost \<longrightarrow> leaseID a' = u)) \<and>
   (status (applyOp op u a) \<noteq> status a \<longrightarrow>
      (status (applyOp op u a) = ReadyHost \<or> status (applyOp op u a) = HeldHost \<longrightarrow>
         leaseID (applyOp op u a) = '''') \<and>
      (status (applyOp op u a) = PlacingHost \<or> status (applyOp op u a) = ReservedHost \<longrightarrow>
         leaseID (applyOp op u a) = u)) \<and>
   (uuid \<noteq> '''' \<and> uuid \<notin> snd ` set ops \<longrightarrow>
      leaseID (runOps ops (newHostSummary h r v)) \<noteq> uuid)"
proof (intro conjI impI)
  assume "\<forall>x \<in> set ops. declaredOp (fst x) \<and> snd x \<noteq> ''''"
  moreover have "declaredStatus (status (newHostSummary h r v))"
    by (simp add: newHostSummary_def declaredStatus_def)
  ultimately have "leaseInvariant (runOps ops (newHostSummary h r v))"
    using leaseInvariant_runOps[OF _ leaseInvariant_newHostSummary] by blast
  then show "leaseID (runOps ops (newHostSummary h r v)) \<noteq> '''' \<longleftrightarrow>
         status (runOps ops (newHostSummary h r v)) = PlacingHost \<or>
         status (runOps ops (newHostSummary h r v)) = ReservedHost"
    unfolding leaseInvariant_def .
next
  assume "casStatus old new u a = (None, a')"
  from casStatus_None[OF this] show "status a' = new" by simp
next
  assume "casStatus old new u a = (None, a')" and "new = ReadyHost \<or> new = HeldHost"
  from casStatus_None[OF this(1)] this(2) show "leaseID a' = ''''" by auto
next
  assume "casStatus old new u a = (None, a')" and "new = PlacingHost \<or> new = ReservedHost"
  from casStatus_None[OF this(1)] this(2) show "leaseID a' = u" by auto
next
  assume "status (applyOp op u a) \<noteq> status a"
    and "status (applyOp op u a) = ReadyHost \<or> status (applyOp op u a) = HeldHost"
  from applyOp_entering[OF this(1)] this(2) show "leaseID (applyOp op u a) = ''''" by auto
next
  assume "status (applyOp op u a) \<noteq> status a"
    and "status (applyOp op u a) = PlacingHost \<or> status (applyOp op u a) = ReservedHost"
  from applyOp_entering[OF this(1)] this(2) show "leaseID (applyOp op u a) = u" by auto
next
  assume "uuid \<noteq> '''' \<and> uuid \<notin> snd ` set ops"
  moreover have "leaseID (newHostSummary h r v) = ''''"
    by (simp add: newHostSummary_def)
  ultimately show "leaseID (runOps ops (newHostSummary h r v)) \<noteq> uuid"
    using leaseID_runOps_drawn[of ops "newHostSummary h r v"] by auto
qed

theorem leaseID_iff_Placing_or_Reserved_witness:
  "list_all (\<lambda>x. declaredOp (fst x) \<and> snd x \<noteq> '''') ex_ops \<and>
   status (runOps ex_ops (newHostSummary ''host1'' (Some ex_capacity) ''v1'')) = ReservedHost \<and>
   leaseID (runOps ex_ops (newHostSummary ''host1'' (Some ex_capacity) ''v1'')) \<noteq> '''' \<and>
   leaseID (runOps ex_ops (newHostSummary ''host1'' (Some ex_capacity) ''v1'')) \<noteq> ''fresh'' \<and>
   casStatus ReadyHost PlacingHost ''L'' ex_ready = (None, ex_placing) \<and>
   leaseID ex_placing = ''L'' \<and>
   status (applyOp OpTerminateLease ''u'' ex_placing) \<noteq> status ex_placing \<and>
   leaseID (applyOp OpTerminateLease ''u'' ex_placing) = ''''"
proof -
  have u: "\<forall>x \<in> set ex_ops. declaredOp (fst x) \<and> snd x \<noteq> ''''"
    by (simp add: ex_ops_def declaredStatus_def)
  have f: "''fresh'' \<noteq> '''' \<and> ''fresh'' \<notin> snd ` set ex_ops"
    by (simp add: ex_ops_def)
  have s: "status (runOps ex_ops (newHostSummary ''host1'' (Some ex_capacity) ''v1'')) = ReservedHost"
    using ex_ops_status by (simp add: ex_ready_def)
  have c: "casStatus ReadyHost PlacingHost ''L'' ex_ready = (None, ex_placing)"
    by (simp add: ex_ready_eq ex_placing_eq casStatus_def)
  have t: "status (applyOp OpTerminateLease ''u'' ex_placing) = ReadyHost"
    by (simp add: ex_placing_eq TerminateLease_def casStatus_def getResetStatus_def)
  have p: "status ex_placing = PlacingHost"
    by (simp add: ex_placing_eq)
  from leaseID_iff_Placing_or_Reserved
         [where ops = ex_ops and h = "''host1''" and r = "Some ex_capacity" and v = "''v1''"
            and old = ReadyHost and new = PlacingHost and u = "''L''" and a = ex_ready
            and a' = ex_placing and op = OpTerminateLease and uuid = "''fresh''"]
       leaseID_iff_Placing_or_Reserved
         [where ops = "[]" and h = "''host1''" and r = "Some ex_capacity" and v = "''v1''"
            and old = ReadyHost and new = PlacingHost and u = "''u''" and a = ex_placing
            and a' = ex_placing and op = OpTerminateLease and uuid = "''fresh''"]
  show ?thesis
    using u f s c t p by (auto simp add: list_all_iff)
qed

text \<open>The claim as first stated fails once \<^verbatim>\<open>CasStatus\<close> is given an undeclared status:
  after a match, \<^verbatim>\<open>CasStatus(PlacingHost, 9)\<close> succeeds, and the host keeps the lease \<open>L\<close>
  in a status that is neither \<open>PlacingHost\<close> nor \<open>ReservedHost\<close>.\<close>

theorem leaseID_undeclared_status_counterexample:
  "'''' \<notin> snd ` set ex_ops_undeclared \<and>
   leaseID (runOps ex_ops_undeclared (newHostSummary ''host1'' (Some ex_capacity) ''v1'')) = ''L'' \<and>
   leaseID (runOps ex_ops_undeclared (newHostSummary ''host1'' (Some ex_capacity) ''v1'')) \<noteq> '''' \<and>
   status (runOps ex_ops_undeclared (newHostSummary ''host1'' (Some ex_capacity) ''v1'')) = 9 \<and>
   status (runOps ex_ops_undeclared (newHostSummary ''host1'' (Some ex_capacity) ''v1''))
     \<noteq> PlacingHost \<and>
   status (runOps ex_ops_undeclared (newHostSummary ''host1'' (Some ex_capacity) ''v1''))
     \<noteq> ReservedHost"
  using ex_ops_undeclared_run
  by (simp add: ex_ready_def[symmetric] ex_placing_eq ex_ops_undeclared_def HostStatus_defs)

section \<open>Properties of the goal-state rules\<close>

subsection \<open>Jobs\<close>

lemma jobRule_simps:
  "jobRule JobState_RUNNING c = map_of
         [(JobState_INITIALIZED, CreateTasksAction),
          (JobState_SUCCEEDED, JobStateInvalidAction),
          (JobState_FAILED, JobStateInvalidAction),
          (JobState_KILLING, JobStateInvalidAction),
          (JobState_UNINITIALIZED, RecoverAction)] c"
  "jobRule JobState_KILLED c = map_of
         [(JobState_SUCCEEDED, UntrackAction),
          (JobState_FAILED, UntrackAction),
          (JobState_KILLED, UntrackAction),
          (JobState_UNINITIALIZED, UntrackAction),
          (JobState_INITIALIZED, KillAction),
          (JobState_PENDING, KillAction),
          (JobState_RUNNING, KillAction)] c"
  by (simp_all add: jobRule_def isoVersionsJobRules_def)

text \<open>
  C7. For the goal state \<open>RUNNING\<close> the action table \<^verbatim>\<open>_isoVersionsJobRules\<close> yields
  \<open>CreateTasks\<close> for the current state \<open>INITIALIZED\<close>, \<open>Recover\<close> for \<open>UNINITIALIZED\<close>, and
  \<open>StateInvalid\<close> for \<open>SUCCEEDED\<close>, \<open>FAILED\<close> and \<open>KILLING\<close>. For the goal state \<open>KILLED\<close> it
  yields \<open>Kill\<close> for \<open>INITIALIZED\<close>, \<open>PENDING\<close> and \<open>RUNNING\<close>, and \<open>Untrack\<close> for the
  terminal states \<open>SUCCEEDED\<close>, \<open>FAILED\<close> and \<open>KILLED\<close>. \<^verbatim>\<open>suggestJobAction\<close> returns the
  entry of the table (no action where there is none) for every job entity, except one
  whose state version is behind a \<open>RUNNING\<close> goal's: that case is decided before the
  table is read.
\<close>

theorem job_rules_RUNNING_and_KILLED:
  "jobRule JobState_RUNNING JobState_INITIALIZED = Some CreateTasksAction \<and>
   jobRule JobState_RUNNING JobState_UNINITIALIZED = Some RecoverAction \<and>
   jobRule JobState_RUNNING JobState_SUCCEEDED = Some JobStateInvalidAction \<and>
   jobRule JobState_RUNNING JobState_FAILED = Some JobStateInvalidAction \<and>
   jobRule JobState_RUNNING JobState_KILLING = Some JobStateInvalidAction \<and>
   jobRule JobState_KILLED JobState_INITIALIZED = Some KillAction \<and>
   jobRule JobState_KILLED JobState_PENDING = Some KillAction \<and>
   jobRule JobState_KILLED JobState_RUNNING = Some KillAction \<and>
   jobRule JobState_KILLED JobState_SUCCEEDED = Some UntrackAction \<and>
   jobRule JobState_KILLED JobState_FAILED = Some UntrackAction \<and>
   jobRule JobState_KILLED JobState_KILLED = Some UntrackAction \<and>
   (\<not> (StateVersion state < StateVersion goalstate \<and> State goalstate = JobState_RUNNING) \<longrightarrow>
      suggestJobAction state goalstate =
        (case jobRule (State goalstate) (State state) of
           Some a \<Rightarrow> a
         | None \<Rightarrow> NoJobAction))"
proof -
  have "suggestJobAction state goalstate =
        (case jobRule (State goalstate) (State state) of
           Some a \<Rightarrow> a
         | None \<Rightarrow> NoJobAction)"
    if "\<not> (StateVersion state < StateVersion goalstate \<and> State goalstate = JobState_RUNNING)"
    using that by (auto simp add: suggestJobAction_def Let_def)
  then show ?thesis
    by (simp add: jobRule_simps)
qed

theorem job_rules_RUNNING_and_KILLED_witness:
  "\<not> (StateVersion \<lparr>State = JobState_UNINITIALIZED, StateVersion = 3\<rparr>
        < StateVersion \<lparr>State = JobState_RUNNING, StateVersion = 3\<rparr> \<and>
      State \<lparr>State = JobState_RUNNING, StateVersion = 3\<rparr> = JobState_RUNNING) \<and>
   suggestJobAction \<lparr>State = JobState_UNINITIALIZED, StateVersion = 3\<rparr>
     \<lparr>State = JobState_RUNNING, StateVersion = 3\<rparr> = RecoverAction \<and>
   suggestJobAction \<lparr>State = JobState_PENDING, StateVersion = 1\<rparr>
     \<lparr>State = JobState_KILLED, StateVersion = 2\<rparr> = KillAction \<and>
   suggestJobAction \<lparr>State = JobState_SUCCEEDED, StateVersion = 2\<rparr>
     \<lparr>State = JobState_KILLED, StateVersion = 2\<rparr> = UntrackAction"
  using job_rules_RUNNING_and_KILLED
          [of "\<lparr>State = JobState_UNINITIALIZED, StateVersion = 3\<rparr>"
              "\<lparr>State = JobState_RUNNING, StateVersion = 3\<rparr>"]
        job_rules_RUNNING_and_KILLED
          [of "\<lparr>State = JobState_PENDING, StateVersion = 1\<rparr>"
              "\<lparr>State = JobState_KILLED, StateVersion = 2\<rparr>"]
        job_rules_RUNNING_and_KILLED
          [of "\<lparr>State = JobState_SUCCEEDED, StateVersion = 2\<rparr>"
              "\<lparr>State = JobState_KILLED, StateVersion = 2\<rparr>"]
  by simp

text \<open>The case decided before the table: a job behind the state version of its \<open>RUNNING\<close>
  goal is started, whatever the table says for its state.\<close>

lemma suggestJobAction_stale_version:
  "suggestJobAction \<lparr>State = JobState_UNINITIALIZED, StateVersion = 1\<rparr>
     \<lparr>State = JobState_RUNNING, StateVersion = 2\<rparr> = StartTasksAction"
  by (simp add: suggestJobAction_def)

subsection \<open>Tasks\<close>

lemma taskRule_RUNNING_INITIALIZED:
  "taskRule TaskState_RUNNING TaskState_INITIALIZED = Some tracked_StartAction"
  by (simp add: taskRule_def isoVersionsTaskRules_def)

lemma taskRule_RUNNING_RUNNING:
  "taskRule TaskState_RUNNING TaskState_RUNNING = None"
  by (simp add: taskRule_def isoVersionsTaskRules_def)

text \<open>
  C8, as amended. For a tracked task whose current and goal configuration versions
  differ, neither of them being \<^verbatim>\<open>tracked.UnknownVersion\<close>, the suggested action is the
  switch to the goal version when the current state is terminal, and \<open>Stop\<close> otherwise.
  The table \<^verbatim>\<open>_isoVersionsTaskRules\<close> is read when the two versions agree, and also when
  one of them is the unknown version.
\<close>

theorem suggestTaskAction_version_mismatch:
  "(ConfigVersion (CurrentState t) \<noteq> ConfigVersion (GoalState t) \<and>
    ConfigVersion (CurrentState t) \<noteq> U \<and> ConfigVersion (GoalState t) \<noteq> U \<longrightarrow>
      suggestTaskAction U T t =
        (if T (Task_State (CurrentState t)) then tracked_UseGoalVersionAction
         else tracked_StopAction)) \<and>
   (ConfigVersion (CurrentState t) = ConfigVersion (GoalState t) \<or>
    ConfigVersion (CurrentState t) = U \<or> ConfigVersion (GoalState t) = U \<longrightarrow>
      suggestTaskAction U T t =
        (case taskRule (Task_State (GoalState t)) (Task_State (CurrentState t)) of
           Some a \<Rightarrow> a
         | None \<Rightarrow> tracked_NoAction))"
  by (auto simp add: suggestTaskAction_def Let_def)

theorem suggestTaskAction_version_mismatch_witness:
  "ConfigVersion (CurrentState ex_task_stale) \<noteq> ConfigVersion (GoalState ex_task_stale) \<and>
   ConfigVersion (CurrentState ex_task_stale) \<noteq> ex_UnknownVersion \<and>
   ConfigVersion (GoalState ex_task_stale) \<noteq> ex_UnknownVersion \<and>
   suggestTaskAction ex_UnknownVersion terminalTaskState ex_task_stale = tracked_StopAction \<and>
   suggestTaskAction ex_UnknownVersion terminalTaskState ex_task_stale_done
     = tracked_UseGoalVersionAction \<and>
   ConfigVersion (CurrentState ex_task_level) = ConfigVersion (GoalState ex_task_level) \<and>
   suggestTaskAction ex_UnknownVersion terminalTaskState ex_task_level = tracked_StartAction"
  using suggestTaskAction_version_mismatch[of ex_task_stale ex_UnknownVersion terminalTaskState]
        suggestTaskAction_version_mismatch[of ex_task_stale_done ex_UnknownVersion terminalTaskState]
        suggestTaskAction_version_mismatch[of ex_task_level ex_UnknownVersion terminalTaskState]
  by (simp add: ex_task_stale_def ex_task_stale_done_def ex_task_level_def ex_UnknownVersion_def
        terminalTaskState_def taskRule_RUNNING_INITIALIZED)

text \<open>The claim as first stated fails for a task whose current version is the unknown
  one: the versions differ, the state \<open>INITIALIZED\<close> is not terminal, and yet the action
  is the \<open>Start\<close> of the table, not \<open>Stop\<close>. The same holds whatever value the constant
  has.\<close>

theorem suggestTaskAction_unknown_version_counterexample:
  "ConfigVersion (CurrentState ex_task_unknown) \<noteq> ConfigVersion (GoalState ex_task_unknown) \<and>
   \<not> terminalTaskState (Task_State (CurrentState ex_task_unknown)) \<and>
   suggestTaskAction ex_UnknownVersion terminalTaskState ex_task_unknown = tracked_StartAction \<and>
   suggestTaskAction ex_UnknownVersion terminalTaskState ex_task_unknown \<noteq> tracked_StopAction"
  by (simp add: ex_task_unknown_def ex_UnknownVersion_def terminalTaskState_def
        suggestTaskAction_def taskRule_RUNNING_INITIALIZED)

lemma suggestTaskAction_unknown_version_any:
  "suggestTaskAction U T
     \<lparr>CurrentState = \<lparr>Task_State = TaskState_INITIALIZED, ConfigVersion = U\<rparr>,
      GoalState = \<lparr>Task_State = TaskState_RUNNING, ConfigVersion = U + 1\<rparr>\<rparr>
   = tracked_StartAction"
  by (simp add: suggestTaskAction_def taskRule_RUNNING_INITIALIZED)


section \<open>Properties of the resource pool\<close>

lemma headOfLine_Some_nonempty: "headOfLine q = Some g \<Longrightarrow> q \<noteq> []"
  by (auto simp add: headOfLine_def)

lemma dequeueLoop_one_blocked:
  "headOfLine (pendingQueue p) = Some g \<Longrightarrow> \<not> canBeAdmitted p g \<Longrightarrow>
   dequeueLoop (Suc 0) p [] = ([], p)"
  by simp

lemma dequeueLoop_one_admitted:
  "headOfLine (pendingQueue p) = Some g \<Longrightarrow> canBeAdmitted p g \<Longrightarrow>
   dequeueLoop (Suc 0) p [] = ([g], p\<lparr>pendingQueue := remove1 g (pendingQueue p)\<rparr>)"
  by simp

lemma pendingQueue_SetEntitlementByKind [simp]:
  "pendingQueue (SetEntitlementByKind k v p) = pendingQueue p"
  by (cases k) (simp_all add: SetEntitlementByKind_def)

lemma allocation_SetEntitlementByKind [simp]:
  "allocation (SetEntitlementByKind k v p) = allocation p"
  by (cases k) (simp_all add: SetEntitlementByKind_def)

lemma siblingsReservationsKept_SetEntitlementByKind [simp]:
  "siblingsReservationsKept (SetEntitlementByKind k v p) = siblingsReservationsKept p"
  by (cases k) (simp_all add: SetEntitlementByKind_def)

lemmas respool_eval =
  DequeueGangList_def headOfLine_def gangPriority_def canBeAdmitted_def fitsEntitlement_def
  gangResources_def Add_def Contains_def Resources_zero_def ex_small_def

lemma ex_pool_enqueued_eq:
  "ex_pool_enqueued =
     \<lparr>pendingQueue = [[ex_small 0 ''job1-1''], [ex_small 1 ''job1-2''],
                      [ex_small 2 ''job2-1''], [ex_small 2 ''job2-2'']],
      entitlement = \<lparr>CPU = 100, Mem = 1000, Disk = 100, GPU = 2\<rparr>,
      allocation = Resources_zero,
      siblingsReservationsKept = (\<lambda>g. True)\<rparr>"
  by (simp add: ex_pool_enqueued_def ex_pool_start_def EnqueueGang_def)

text \<open>The steps of the test: the two dequeues hand out the gangs of priority 2 in their
  order of arrival, and the pool the big task is enqueued into is the concrete pool.\<close>

lemma ex_pool_first_dequeue:
  "DequeueGangList 1 ex_pool_enqueued =
     (Inr [[ex_small 2 ''job2-1'']],
      ex_pool_enqueued\<lparr>pendingQueue := [[ex_small 0 ''job1-1''], [ex_small 1 ''job1-2''],
                                         [ex_small 2 ''job2-2'']]\<rparr>)"
  by (simp add: ex_pool_enqueued_eq respool_eval)

lemma ex_pool_second_dequeue:
  "DequeueGangList 1
     (ex_pool_enqueued\<lparr>pendingQueue := [[ex_small 0 ''job1-1''], [ex_small 1 ''job1-2''],
                                         [ex_small 2 ''job2-2'']]\<rparr>) =
     (Inr [[ex_small 2 ''job2-2'']],
      ex_pool_enqueued\<lparr>pendingQueue := [[ex_small 0 ''job1-1''], [ex_small 1 ''job1-2'']]\<rparr>)"
  by (simp add: ex_pool_enqueued_eq respool_eval)

lemma ex_pool_third_enqueue:
  "EnqueueGang [ex_bigtask]
     (ex_pool_enqueued\<lparr>pendingQueue := [[ex_small 0 ''job1-1''], [ex_small 1 ''job1-2'']]\<rparr>) =
     (None,
      ex_pool_enqueued\<lparr>pendingQueue := [[ex_small 0 ''job1-1''], [ex_small 1 ''job1-2''],
                                         [ex_bigtask]]\<rparr>)"
  by (simp add: EnqueueGang_def)

lemma ex_pool_eq:
  "ex_pool =
     \<lparr>pendingQueue = [[ex_small 0 ''job1-1''], [ex_small 1 ''job1-2''], [ex_bigtask]],
      entitlement = \<lparr>CPU = 100, Mem = 1000, Disk = 100, GPU = 2\<rparr>,
      allocation = Resources_zero,
      siblingsReservationsKept = (\<lambda>g. True)\<rparr>"
proof -
  have "ex_pool =
      ex_pool_enqueued\<lparr>pendingQueue := [[ex_small 0 ''job1-1''], [ex_small 1 ''job1-2''],
                                         [ex_bigtask]]\<rparr>"
    by (simp only: ex_pool_def ex_pool_first_dequeue snd_conv ex_pool_second_dequeue
          ex_pool_third_enqueue)
  then show ?thesis
    by (simp add: ex_pool_enqueued_eq)
qed

lemma ex_pool_head: "headOfLine (pendingQueue ex_pool) = Some [ex_bigtask]"
  by (simp add: ex_pool_eq headOfLine_def gangPriority_def ex_small_def ex_bigtask_def)

text \<open>The specification's scenario of the priority-FIFO dequeue: gangs of priority 0, 1,
  2, 2 in a leaf entitled to the demand of one task; four calls of
  \<^verbatim>\<open>DequeueGangList(1)\<close> hand out the priorities 2, 2, 1, 0.\<close>

lemma priority_fifo_scenario:
  "DequeueGangList 1 ex_pool_tight =
     (Inr [[ex_small 2 ''job2-1'']],
      ex_pool_tight\<lparr>pendingQueue := [[ex_small 0 ''job1-1''], [ex_small 1 ''job1-2''],
                                      [ex_small 2 ''job2-2'']]\<rparr>) \<and>
   DequeueGangList 1
     (ex_pool_tight\<lparr>pendingQueue := [[ex_small 0 ''job1-1''], [ex_small 1 ''job1-2''],
                                      [ex_small 2 ''job2-2'']]\<rparr>) =
     (Inr [[ex_small 2 ''job2-2'']],
      ex_pool_tight\<lparr>pendingQueue := [[ex_small 0 ''job1-1''], [ex_small 1 ''job1-2'']]\<rparr>) \<and>
   DequeueGangList 1
     (ex_pool_tight\<lparr>pendingQueue := [[ex_small 0 ''job1-1''], [ex_small 1 ''job1-2'']]\<rparr>) =
     (Inr [[ex_small 1 ''job1-2'']],
      ex_pool_tight\<lparr>pendingQueue := [[ex_small 0 ''job1-1'']]\<rparr>) \<and>
   DequeueGangList 1 (ex_pool_tight\<lparr>pendingQueue := [[ex_small 0 ''job1-1'']]\<rparr>) =
     (Inr [[ex_small 0 ''job1-1'']], ex_pool_tight\<lparr>pendingQueue := []\<rparr>)"
  by (simp add: ex_pool_tight_def ex_pool_enqueued_eq respool_eval)

text \<open>
  C6. Head-of-line blocking. When the gang at the head of line of a leaf pool does not
  fit the entitlement (the allocation plus its demand is not contained in it),
  \<^verbatim>\<open>DequeueGangList(1)\<close> returns the insufficient-resources error and the pool is
  unchanged: no gang is removed or skipped. Once a component of the entitlement has been
  set so that the gang fits, and the siblings' reservations are kept at the ancestors,
  the same call succeeds, returns exactly that gang and removes it from the queue. The
  witness is the gang of 200 CPUs in the pool entitled to 100 CPUs, then to 500.
\<close>

theorem head_of_line_blocking:
  assumes "headOfLine (pendingQueue p) = Some g"
  shows "(\<not> Contains (entitlement p) (Add (allocation p) (gangResources g)) \<longrightarrow>
            DequeueGangList 1 p = (Inl InsufficientResources, p)) \<and>
         (Contains (entitlement (SetEntitlementByKind k v p))
              (Add (allocation p) (gangResources g)) \<and>
          siblingsReservationsKept p g \<longrightarrow>
            DequeueGangList 1 (SetEntitlementByKind k v p) =
              (Inr [g],
               (SetEntitlementByKind k v p)\<lparr>pendingQueue := remove1 g (pendingQueue p)\<rparr>))"
proof (intro conjI impI)
  assume "\<not> Contains (entitlement p) (Add (allocation p) (gangResources g))"
  then have "\<not> canBeAdmitted p g"
    by (simp add: canBeAdmitted_def fitsEntitlement_def)
  with assms have "dequeueLoop (Suc 0) p [] = ([], p)"
    by (rule dequeueLoop_one_blocked)
  moreover from assms have "pendingQueue p \<noteq> []"
    by (rule headOfLine_Some_nonempty)
  ultimately show "DequeueGangList 1 p = (Inl InsufficientResources, p)"
    by (simp add: DequeueGangList_def)
next
  let ?p = "SetEntitlementByKind k v p"
  assume "Contains (entitlement ?p) (Add (allocation p) (gangResources g)) \<and>
          siblingsReservationsKept p g"
  then have "canBeAdmitted ?p g"
    by (simp add: canBeAdmitted_def fitsEntitlement_def)
  moreover from assms have "headOfLine (pendingQueue ?p) = Some g" by simp
  ultimately have "dequeueLoop (Suc 0) ?p [] =
     ([g], ?p\<lparr>pendingQueue := remove1 g (pendingQueue ?p)\<rparr>)"
    by (rule dequeueLoop_one_admitted[rotated])
  then show "DequeueGangList 1 ?p =
              (Inr [g], ?p\<lparr>pendingQueue := remove1 g (pendingQueue p)\<rparr>)"
    by (simp add: DequeueGangList_def)
qed

theorem head_of_line_blocking_witness:
  "headOfLine (pendingQueue ex_pool) = Some [ex_bigtask] \<and>
   \<not> Contains (entitlement ex_pool) (Add (allocation ex_pool) (gangResources [ex_bigtask])) \<and>
   DequeueGangList 1 ex_pool = (Inl InsufficientResources, ex_pool) \<and>
   Contains (entitlement (SetEntitlementByKind KindCPU 500 ex_pool))
     (Add (allocation ex_pool) (gangResources [ex_bigtask])) \<and>
   siblingsReservationsKept ex_pool [ex_bigtask] \<and>
   fst (DequeueGangList 1 (SetEntitlementByKind KindCPU 500 ex_pool)) = Inr [[ex_bigtask]] \<and>
   pendingQueue (snd (DequeueGangList 1 (SetEntitlementByKind KindCPU 500 ex_pool)))
     = [[ex_small 0 ''job1-1''], [ex_small 1 ''job1-2'']]"
proof -
  have b: "\<not> Contains (entitlement ex_pool) (Add (allocation ex_pool) (gangResources [ex_bigtask]))"
    by (simp add: ex_pool_eq ex_bigtask_def gangResources_def Add_def Contains_def
          Resources_zero_def)
  have a: "Contains (entitlement (SetEntitlementByKind KindCPU 500 ex_pool))
             (Add (allocation ex_pool) (gangResources [ex_bigtask])) \<and>
           siblingsReservationsKept ex_pool [ex_bigtask]"
    by (simp add: SetEntitlementByKind_def ex_pool_eq ex_bigtask_def gangResources_def Add_def
          Contains_def Resources_zero_def)
  have r: "remove1 [ex_bigtask] (pendingQueue ex_pool)
             = [[ex_small 0 ''job1-1''], [ex_small 1 ''job1-2'']]"
    by (simp add: ex_pool_eq ex_small_def ex_bigtask_def)
  from head_of_line_blocking[OF ex_pool_head, of KindCPU 500] b a r
  show ?thesis
    using ex_pool_head by simp
qed

text \<open>
  C9. \<^verbatim>\<open>EnqueueGang\<close> returns an error for the empty gang, and \<^verbatim>\<open>DequeueGangList\<close>
  returns an error for every limit \<open>n \<le> 0\<close>, limit 0 among them; both leave the pool,
  hence its pending queue, unchanged.
\<close>

theorem empty_gang_and_invalid_limit:
  "EnqueueGang [] p = (Some GangHasNoElements, p) \<and>
   (n \<le> 0 \<longrightarrow> DequeueGangList n p = (Inl (LimitNotValid n), p))"
  by (simp add: EnqueueGang_def DequeueGangList_def)

theorem empty_gang_and_invalid_limit_witness:
  "(0::int) \<le> 0 \<and>
   EnqueueGang [] ex_pool = (Some GangHasNoElements, ex_pool) \<and>
   DequeueGangList 0 ex_pool = (Inl (LimitNotValid 0), ex_pool) \<and>
   pendingQueue (snd (DequeueGangList 0 ex_pool)) = pendingQueue ex_pool"
  using empty_gang_and_invalid_limit[of ex_pool 0]
  by simp

end
